theory Spec2Isabelle
  imports Main "HOL-Library.Word"
begin

unbundle bit_operations_syntax

section \<open>The Cyberion kernel-mode driver: event handoff core\<close>

text \<open>
  A shallow embedding of \<^verbatim>\<open>Driver.c\<close> and \<^verbatim>\<open>Public.h\<close>. The driver keeps one global
  pointer \<^verbatim>\<open>g_PendingIrp\<close> to the request (IRP) of a user-mode service that waits for the
  next process creation. The process-notify callback fills that request's buffer and
  completes it; the device-control dispatcher stores a request there or rejects it.

  Requests are objects the code reaches through pointers, so the model keeps a store
  \<open>irps\<close> from request addresses to request contents, and \<^verbatim>\<open>g_PendingIrp\<close> is an optional
  address (\<open>None\<close> is \<^verbatim>\<open>NULL\<close>). Each routine takes the driver state and returns the new one.
  The buffer of a request is the caller's: it is a list of bytes of the length the caller
  chose, and the records the code reads and writes through casts are laid out in it.
  The spin lock \<^verbatim>\<open>g_IrpQueueLock\<close> makes the check and update of \<^verbatim>\<open>g_PendingIrp\<close> one atomic
  step; in this sequential model every routine is one step, so acquiring and releasing the
  lock change nothing and are left out, as are the \<^verbatim>\<open>DbgPrint\<close> calls.
\<close>

subsection \<open>Machine types (64-bit Windows build)\<close>

type_synonym HANDLE = "64 word"
type_synonym ULONG_PTR = "64 word"
type_synonym ULONG = "32 word"
type_synonym NTSTATUS = "32 word"
type_synonym USHORT = "16 word"
type_synonym WCHAR = "16 word"
type_synonym UCHAR = "8 word"
type_synonym PIRP = nat

text \<open>Status codes of \<^verbatim>\<open>ntstatus.h\<close> that the driver uses, with their values there.\<close>

definition STATUS_SUCCESS :: NTSTATUS where
  "STATUS_SUCCESS = 0x00000000"

definition STATUS_PENDING :: NTSTATUS where
  "STATUS_PENDING = 0x00000103"

definition STATUS_DEVICE_BUSY :: NTSTATUS where
  "STATUS_DEVICE_BUSY = 0x80000011"

definition STATUS_INVALID_DEVICE_REQUEST :: NTSTATUS where
  "STATUS_INVALID_DEVICE_REQUEST = 0xC0000010"

definition STATUS_CANCELLED :: NTSTATUS where
  "STATUS_CANCELLED = 0xC0000120"

text \<open>\<^verbatim>\<open>NT_SUCCESS(status)\<close> is \<^verbatim>\<open>((NTSTATUS)(status)) >= 0\<close>, on the signed value.\<close>

definition NT_SUCCESS :: "NTSTATUS \<Rightarrow> bool" where
  "NT_SUCCESS status = (0 \<le> sint status)"

subsection \<open>Values in memory\<close>

text \<open>
  The machine is little-endian: a value of \<open>n\<close> bytes lies in memory with its low byte
  first. \<open>bytes_of_word n w\<close> are the \<open>n\<close> bytes of \<open>w\<close>, \<open>word_of_bytes bs\<close> is the value
  that the bytes \<open>bs\<close> hold.
\<close>

definition bytes_of_word :: "nat \<Rightarrow> 'a::len word \<Rightarrow> UCHAR list" where
  "bytes_of_word n w = map (\<lambda>i. ucast (drop_bit (8 * i) w)) [0..<n]"

definition word_of_bytes :: "UCHAR list \<Rightarrow> 'a::len word" where
  "word_of_bytes bs = foldr (\<lambda>b w. ucast b OR push_bit 8 w) bs 0"

definition sizeof_HANDLE :: nat where
  "sizeof_HANDLE = 8"

definition sizeof_ULONG :: nat where
  "sizeof_ULONG = 4"

definition sizeof_WCHAR :: nat where
  "sizeof_WCHAR = 2"

text \<open>An array of code units in memory, and the code units that a run of bytes holds.\<close>

definition bytes_of_WCHARs :: "WCHAR list \<Rightarrow> UCHAR list" where
  "bytes_of_WCHARs ws = concat (map (bytes_of_word sizeof_WCHAR) ws)"

fun WCHARs_of_bytes :: "UCHAR list \<Rightarrow> WCHAR list" where
  "WCHARs_of_bytes (lo # hi # rest) = word_of_bytes [lo, hi] # WCHARs_of_bytes rest"
| "WCHARs_of_bytes _ = []"

text \<open>
  A store of the bytes \<open>bs\<close> at offset \<open>off\<close> of the buffer \<open>buf\<close>. A store that does not lie
  within the buffer writes memory that is not the buffer's (for the \<^verbatim>\<open>NULL\<close> buffer, which
  has no bytes, that is every store); C gives it no meaning, and the model gives \<open>None\<close>.
\<close>

definition write_bytes :: "UCHAR list \<Rightarrow> nat \<Rightarrow> UCHAR list \<Rightarrow> UCHAR list option" where
  "write_bytes buf off bs =
     (if off + length bs \<le> length buf
      then Some (take off buf @ bs @ drop (off + length bs) buf)
      else None)"

subsection \<open>Public.h: control codes and shared records\<close>

text \<open>
  \<^verbatim>\<open>CTL_CODE(DeviceType, Function, Method, Access)\<close> of the Windows headers is
  \<^verbatim>\<open>((DeviceType) << 16) | ((Access) << 14) | ((Function) << 2) | (Method)\<close>.
\<close>

definition CTL_CODE :: "ULONG \<Rightarrow> ULONG \<Rightarrow> ULONG \<Rightarrow> ULONG \<Rightarrow> ULONG" where
  "CTL_CODE DeviceType Function Method Access =
     push_bit 16 DeviceType OR push_bit 14 Access OR push_bit 2 Function OR Method"

definition FILE_DEVICE_UNKNOWN :: ULONG where
  "FILE_DEVICE_UNKNOWN = 0x00000022"

definition METHOD_BUFFERED :: ULONG where
  "METHOD_BUFFERED = 0"

definition FILE_READ_DATA :: ULONG where
  "FILE_READ_DATA = 0x0001"

definition FILE_WRITE_DATA :: ULONG where
  "FILE_WRITE_DATA = 0x0002"

definition IOCTL_CYBERION_GET_PROCESS_INFO :: ULONG where
  "IOCTL_CYBERION_GET_PROCESS_INFO =
     CTL_CODE FILE_DEVICE_UNKNOWN 0x801 METHOD_BUFFERED FILE_READ_DATA"

definition IOCTL_CYBERION_SEND_RESPONSE :: ULONG where
  "IOCTL_CYBERION_SEND_RESPONSE =
     CTL_CODE FILE_DEVICE_UNKNOWN 0x802 METHOD_BUFFERED FILE_WRITE_DATA"

definition MAX_PATH_SIZE :: nat where
  "MAX_PATH_SIZE = 260"

text \<open>
  \<^verbatim>\<open>PROCESS_CREATION_INFO\<close>: two handles and \<^verbatim>\<open>WCHAR ImageFileName[MAX_PATH_SIZE]\<close>, as
  values.
\<close>

record PROCESS_CREATION_INFO =
  ProcessId :: HANDLE
  ParentProcessId :: HANDLE
  ImageFileName :: "WCHAR list"

text \<open>
  The layout of the record in memory: the two 8-byte handles, then the array, with no
  padding.
\<close>

definition offsetof_ProcessId :: nat where
  "offsetof_ProcessId = 0"

definition offsetof_ParentProcessId :: nat where
  "offsetof_ParentProcessId = sizeof_HANDLE"

definition offsetof_ImageFileName :: nat where
  "offsetof_ImageFileName = sizeof_HANDLE + sizeof_HANDLE"

definition sizeof_PROCESS_CREATION_INFO :: nat where
  "sizeof_PROCESS_CREATION_INFO = 8 + 8 + MAX_PATH_SIZE * sizeof_WCHAR"

text \<open>
  A buffer holds a whole record when it has at least the bytes of one. The record that a
  reader of the buffer finds there, through a cast to \<^verbatim>\<open>PPROCESS_CREATION_INFO\<close>:
\<close>

definition holds_PROCESS_CREATION_INFO :: "UCHAR list \<Rightarrow> bool" where
  "holds_PROCESS_CREATION_INFO buf = (sizeof_PROCESS_CREATION_INFO \<le> length buf)"

definition PROCESS_CREATION_INFO_of :: "UCHAR list \<Rightarrow> PROCESS_CREATION_INFO" where
  "PROCESS_CREATION_INFO_of buf =
     \<lparr>ProcessId = word_of_bytes (take sizeof_HANDLE (drop offsetof_ProcessId buf)),
      ParentProcessId = word_of_bytes (take sizeof_HANDLE (drop offsetof_ParentProcessId buf)),
      ImageFileName =
        WCHARs_of_bytes (take (MAX_PATH_SIZE * sizeof_WCHAR) (drop offsetof_ImageFileName buf))\<rparr>"

text \<open>
  \<^verbatim>\<open>USER_RESPONSE_TYPE\<close> is a C enum, so a variable of that type is an \<^verbatim>\<open>int\<close> that can hold
  values other than its two enumerators.
\<close>

type_synonym USER_RESPONSE_TYPE = "32 word"

definition UserResponseAllow :: USER_RESPONSE_TYPE where
  "UserResponseAllow = 0"

definition UserResponseBlock :: USER_RESPONSE_TYPE where
  "UserResponseBlock = 1"

record USER_RESPONSE =
  Response_ProcessId :: HANDLE
  Response :: USER_RESPONSE_TYPE

text \<open>
  The record in memory: the handle, the 4-byte enum at offset 8 and 4 bytes of padding.
  \<open>USER_RESPONSE_of\<close> is the record that a reader of a buffer finds there through a cast
  to \<^verbatim>\<open>PUSER_RESPONSE\<close>.
\<close>

definition bytes_of_USER_RESPONSE :: "USER_RESPONSE \<Rightarrow> UCHAR list" where
  "bytes_of_USER_RESPONSE r =
     bytes_of_word sizeof_HANDLE (Response_ProcessId r)
     @ bytes_of_word sizeof_ULONG (Response r) @ replicate 4 0"

definition USER_RESPONSE_of :: "UCHAR list \<Rightarrow> USER_RESPONSE" where
  "USER_RESPONSE_of buf =
     \<lparr>Response_ProcessId = word_of_bytes (take sizeof_HANDLE buf),
      Response = word_of_bytes (take sizeof_ULONG (drop sizeof_HANDLE buf))\<rparr>"

subsection \<open>Kernel records the driver reads and writes\<close>

text \<open>
  \<^verbatim>\<open>UNICODE_STRING\<close>: \<open>Length\<close> and \<open>MaximumLength\<close> count bytes, \<open>Buffer\<close> points to the code
  units. A string the kernel hands out has an even \<open>Length\<close> that does not exceed the
  bytes behind \<open>Buffer\<close>.
\<close>

record UNICODE_STRING =
  Length :: USHORT
  MaximumLength :: USHORT
  Buffer :: "WCHAR list"

definition valid_UNICODE_STRING :: "UNICODE_STRING \<Rightarrow> bool" where
  "valid_UNICODE_STRING us =
     (even (unat (Length us)) \<and> unat (Length us) \<le> sizeof_WCHAR * length (Buffer us))"

text \<open>The code units a string holds: the first \<open>Length\<close> bytes behind \<open>Buffer\<close>.\<close>

definition image_path :: "UNICODE_STRING \<Rightarrow> WCHAR list" where
  "image_path us = take (unat (Length us) div sizeof_WCHAR) (Buffer us)"

text \<open>
  What the copy of at most \<open>MAX_PATH_SIZE\<close> code units needs of a string: the bytes to
  copy are whole code units and lie behind \<open>Buffer\<close>. A valid string has that, and so has
  every string with more than \<open>MAX_PATH_SIZE\<close> code units.
\<close>

definition copies_whole_units :: "UNICODE_STRING \<Rightarrow> bool" where
  "copies_whole_units us =
     (even (min (unat (Length us)) (MAX_PATH_SIZE * sizeof_WCHAR)) \<and>
      min (unat (Length us)) (MAX_PATH_SIZE * sizeof_WCHAR) \<le> sizeof_WCHAR * length (Buffer us))"

text \<open>
  \<^verbatim>\<open>PS_CREATE_NOTIFY_INFO\<close>, the two fields the callback reads. \<^verbatim>\<open>ImageFileName\<close> is a
  pointer to a constant string and may be \<^verbatim>\<open>NULL\<close>.
\<close>

record PS_CREATE_NOTIFY_INFO =
  CreateInfo_ParentProcessId :: HANDLE
  CreateInfo_ImageFileName :: "UNICODE_STRING option"

record IO_STATUS_BLOCK =
  Status :: NTSTATUS
  Information :: ULONG_PTR

text \<open>
  An IRP, as far as the driver and the calls it makes touch it:
  \<^item> \<open>IoControlCode\<close>: \<^verbatim>\<open>Parameters.DeviceIoControl.IoControlCode\<close> of the current stack
    location;
  \<^item> \<open>SystemBuffer\<close>: the bytes behind \<^verbatim>\<open>AssociatedIrp.SystemBuffer\<close>. Both control codes
    are \<^verbatim>\<open>METHOD_BUFFERED\<close>: the buffer has the larger of the caller's input and output
    lengths, it starts with the caller's input, and with both lengths zero the pointer is
    \<^verbatim>\<open>NULL\<close>, which is the empty list. The driver looks at neither length;
  \<^item> \<open>PendingReturned\<close>: the \<^verbatim>\<open>SL_PENDING_RETURNED\<close> bit that \<^verbatim>\<open>IoMarkIrpPending\<close> sets;
  \<^item> \<open>Cancel\<close>: the \<^verbatim>\<open>Cancel\<close> flag that \<^verbatim>\<open>IoCancelIrp\<close> sets;
  \<^item> \<open>Completions\<close>: how many times \<^verbatim>\<open>IoCompleteRequest\<close> was called on it.
\<close>

record IRP =
  IoControlCode :: ULONG
  SystemBuffer :: "UCHAR list"
  IoStatus :: IO_STATUS_BLOCK
  PendingReturned :: bool
  Cancel :: bool
  Completions :: nat

text \<open>
  The driver state: the global \<^verbatim>\<open>g_PendingIrp\<close>, the store of requests, and what the
  driver has registered with the kernel (the device object of \<^verbatim>\<open>g_DeviceObject\<close>, the
  symbolic link, the process-notify routine).
\<close>

record driver_state =
  g_PendingIrp :: "PIRP option"
  irps :: "PIRP \<Rightarrow> IRP"
  DeviceCreated :: bool
  SymbolicLinkCreated :: bool
  NotifyRoutineRegistered :: bool

subsection \<open>Kernel calls\<close>

definition IoCompleteRequest :: "IRP \<Rightarrow> IRP" where
  "IoCompleteRequest Irp = Irp\<lparr>Completions := Suc (Completions Irp)\<rparr>"

definition IoMarkIrpPending :: "IRP \<Rightarrow> IRP" where
  "IoMarkIrpPending Irp = Irp\<lparr>PendingReturned := True\<rparr>"

text \<open>
  \<^verbatim>\<open>IoCancelIrp\<close> sets the request's cancel flag and calls the cancel routine registered
  for the request, if there is one. The driver never registers a cancel routine (it has
  no call of \<^verbatim>\<open>IoSetCancelRoutine\<close>), so for its requests the call sets the flag and
  nothing else: the status block is not written and the request is not completed.
\<close>

definition IoCancelIrp :: "IRP \<Rightarrow> IRP" where
  "IoCancelIrp Irp = Irp\<lparr>Cancel := True\<rparr>"

text \<open>
  \<^verbatim>\<open>RtlCopyMemory(dst, src, n)\<close> copies \<open>n\<close> bytes from \<open>src\<close> to \<open>dst\<close>, here to offset \<open>off\<close>
  of the buffer \<open>buf\<close>. Nothing is read or written for \<open>n = 0\<close>; a copy that reads past
  the bytes behind \<open>src\<close> or writes outside the buffer has no meaning.
\<close>

definition RtlCopyMemory :: "UCHAR list \<Rightarrow> nat \<Rightarrow> UCHAR list \<Rightarrow> nat \<Rightarrow> UCHAR list option" where
  "RtlCopyMemory buf off src n =
     (if n = 0 then Some buf
      else if n \<le> length src then write_bytes buf off (take n src)
      else None)"

definition update_irp :: "PIRP \<Rightarrow> (IRP \<Rightarrow> IRP) \<Rightarrow> driver_state \<Rightarrow> driver_state" where
  "update_irp p f s = s\<lparr>irps := (irps s)(p := f (irps s p))\<rparr>"

subsection \<open>Driver.c\<close>

text \<open>
  \<^verbatim>\<open>ProcessNotifyCallback(Process, ProcessId, CreateInfo)\<close>; \<^verbatim>\<open>Process\<close> is unreferenced.
  \<open>CreateInfo = None\<close> is the \<^verbatim>\<open>NULL\<close> of a process exit. The three stores through
  \<^verbatim>\<open>pInfo\<close> go to the buffer of the pending request, whatever its length; the result is
  \<open>None\<close> when one of them leaves the buffer.
\<close>

definition ProcessNotifyCallback ::
  "driver_state \<Rightarrow> HANDLE \<Rightarrow> PS_CREATE_NOTIFY_INFO option \<Rightarrow> driver_state option" where
  "ProcessNotifyCallback s Pid CreateInfo =
     (case CreateInfo of
        None \<Rightarrow> Some s
      | Some ci \<Rightarrow>
          (case g_PendingIrp s of
             None \<Rightarrow> Some s
           | Some p \<Rightarrow>
               (case write_bytes (SystemBuffer (irps s p)) offsetof_ProcessId
                       (bytes_of_word sizeof_HANDLE Pid) of
                  None \<Rightarrow> None
                | Some pInfo1 \<Rightarrow>
                    (case write_bytes pInfo1 offsetof_ParentProcessId
                            (bytes_of_word sizeof_HANDLE (CreateInfo_ParentProcessId ci)) of
                       None \<Rightarrow> None
                     | Some pInfo2 \<Rightarrow>
                         (case (case CreateInfo_ImageFileName ci of
                                  None \<Rightarrow> Some pInfo2
                                | Some name \<Rightarrow>
                                    RtlCopyMemory pInfo2 offsetof_ImageFileName
                                      (bytes_of_WCHARs (Buffer name))
                                      (min (unat (Length name)) (MAX_PATH_SIZE * sizeof_WCHAR))) of
                            None \<Rightarrow> None
                          | Some pInfo3 \<Rightarrow>
                              let s1 = update_irp p (\<lambda>Irp. Irp\<lparr>SystemBuffer := pInfo3\<rparr>) s;
                                  s2 = update_irp p (\<lambda>Irp. Irp\<lparr>IoStatus := (IoStatus Irp)
                                         \<lparr>Status := STATUS_SUCCESS\<rparr>\<rparr>) s1;
                                  s3 = update_irp p (\<lambda>Irp. Irp\<lparr>IoStatus := (IoStatus Irp)
                                         \<lparr>Information := of_nat sizeof_PROCESS_CREATION_INFO\<rparr>\<rparr>) s2;
                                  s4 = update_irp p IoCompleteRequest s3
                              in Some (s4\<lparr>g_PendingIrp := None\<rparr>))))))"

text \<open>
  The three statements with which the dispatch routines complete a request at once:
  \<^verbatim>\<open>Irp->IoStatus.Status = status; Irp->IoStatus.Information = 0;
  IoCompleteRequest(Irp, IO_NO_INCREMENT);\<close>
\<close>

definition complete_with :: "NTSTATUS \<Rightarrow> IRP \<Rightarrow> IRP" where
  "complete_with status Irp =
     IoCompleteRequest (Irp\<lparr>IoStatus := \<lparr>Status = status, Information = 0\<rparr>\<rparr>)"

text \<open>
  \<^verbatim>\<open>CyberionDeviceControl(DeviceObject, Irp)\<close>; \<^verbatim>\<open>DeviceObject\<close> is unreferenced. The
  \<^verbatim>\<open>switch\<close> on the control code has the two cases and the \<^verbatim>\<open>default\<close>.
\<close>

definition CyberionDeviceControl :: "driver_state \<Rightarrow> PIRP \<Rightarrow> NTSTATUS \<times> driver_state" where
  "CyberionDeviceControl s Irp =
     (let code = IoControlCode (irps s Irp) in
      if code = IOCTL_CYBERION_GET_PROCESS_INFO then
        (let (status, s1) =
               (case g_PendingIrp s of
                  Some _ \<Rightarrow> (STATUS_DEVICE_BUSY, s)
                | None \<Rightarrow>
                    (STATUS_PENDING,
                     update_irp Irp IoMarkIrpPending (s\<lparr>g_PendingIrp := Some Irp\<rparr>)))
         in if status \<noteq> STATUS_PENDING
            then (status, update_irp Irp (complete_with status) s1)
            else (status, s1))
      else if code = IOCTL_CYBERION_SEND_RESPONSE then
        (STATUS_SUCCESS, update_irp Irp (complete_with STATUS_SUCCESS) s)
      else
        (STATUS_INVALID_DEVICE_REQUEST,
         update_irp Irp (complete_with STATUS_INVALID_DEVICE_REQUEST) s))"

text \<open>\<^verbatim>\<open>CyberionCreateClose(DeviceObject, Irp)\<close>.\<close>

definition CyberionCreateClose :: "driver_state \<Rightarrow> PIRP \<Rightarrow> NTSTATUS \<times> driver_state" where
  "CyberionCreateClose s Irp =
     (STATUS_SUCCESS, update_irp Irp (complete_with STATUS_SUCCESS) s)"

text \<open>
  \<^verbatim>\<open>CyberionUnload(DriverObject)\<close>: unregister the callback, cancel a pending request,
  delete the symbolic link and the device.
\<close>

definition CyberionUnload :: "driver_state \<Rightarrow> driver_state" where
  "CyberionUnload s =
     (let s1 = s\<lparr>NotifyRoutineRegistered := False\<rparr>;
          s2 = (case g_PendingIrp s1 of
                  Some p \<Rightarrow> (update_irp p IoCancelIrp s1)\<lparr>g_PendingIrp := None\<rparr>
                | None \<Rightarrow> s1)
      in s2\<lparr>SymbolicLinkCreated := False, DeviceCreated := False\<rparr>)"

text \<open>
  \<^verbatim>\<open>DriverEntry(DriverObject, RegistryPath)\<close>. The statuses that \<^verbatim>\<open>IoCreateDevice\<close>,
  \<^verbatim>\<open>IoCreateSymbolicLink\<close> and \<^verbatim>\<open>PsSetCreateProcessNotifyRoutineEx\<close> return are inputs.
  No statement of it writes \<^verbatim>\<open>g_PendingIrp\<close>, which keeps its initialiser \<^verbatim>\<open>NULL\<close>.
\<close>

definition DriverEntry ::
  "driver_state \<Rightarrow> NTSTATUS \<Rightarrow> NTSTATUS \<Rightarrow> NTSTATUS \<Rightarrow> NTSTATUS \<times> driver_state" where
  "DriverEntry s createDevice createLink setNotify =
     (if \<not> NT_SUCCESS createDevice then (createDevice, s)
      else
        let s1 = s\<lparr>DeviceCreated := True\<rparr> in
        if \<not> NT_SUCCESS createLink then (createLink, s1\<lparr>DeviceCreated := False\<rparr>)
        else
          let s2 = s1\<lparr>SymbolicLinkCreated := True\<rparr> in
          if \<not> NT_SUCCESS setNotify
          then (setNotify, s2\<lparr>SymbolicLinkCreated := False, DeviceCreated := False\<rparr>)
          else (STATUS_SUCCESS, s2\<lparr>NotifyRoutineRegistered := True\<rparr>))"

subsection \<open>The driver in its environment\<close>

text \<open>
  The globals as the image is loaded: \<^verbatim>\<open>g_PendingIrp = NULL\<close>, nothing registered, and no
  request exists yet (every address holds a blank request).
\<close>

definition blank_IRP :: IRP where
  "blank_IRP =
     \<lparr>IoControlCode = 0, SystemBuffer = [],
      IoStatus = \<lparr>Status = 0, Information = 0\<rparr>,
      PendingReturned = False, Cancel = False, Completions = 0\<rparr>"

definition initial_state :: driver_state where
  "initial_state =
     \<lparr>g_PendingIrp = None, irps = (\<lambda>_. blank_IRP),
      DeviceCreated = False, SymbolicLinkCreated = False, NotifyRoutineRegistered = False\<rparr>"

text \<open>
  The I/O manager builds a new request for every call of user mode: not marked pending,
  not cancelled, not completed; its control code, buffer and status block are the
  caller's.
\<close>

definition new_IRP :: "IRP \<Rightarrow> bool" where
  "new_IRP Irp = (\<not> PendingReturned Irp \<and> \<not> Cancel Irp \<and> Completions Irp = 0)"

text \<open>The request \<open>Irp\<close> comes into being at address \<open>p\<close>.\<close>

definition arrival :: "driver_state \<Rightarrow> PIRP \<Rightarrow> IRP \<Rightarrow> driver_state" where
  "arrival s p Irp = s\<lparr>irps := (irps s)(p := Irp)\<rparr>"

text \<open>Several process notifications in a row.\<close>

fun notifications ::
  "driver_state \<Rightarrow> (HANDLE \<times> PS_CREATE_NOTIFY_INFO option) list \<Rightarrow> driver_state option" where
  "notifications s [] = Some s"
| "notifications s ((Pid, CreateInfo) # rest) =
     (case ProcessNotifyCallback s Pid CreateInfo of
        None \<Rightarrow> None
      | Some s' \<Rightarrow> notifications s' rest)"

text \<open>
  The states the driver can be in: after a successful \<^verbatim>\<open>DriverEntry\<close>, and then after
  any sequence of device-control and create/close requests, process notifications and
  unloads. A request that arrives is a new one, at an address other than that of the
  request the driver holds; its buffer is any list of bytes.
\<close>

inductive reachable :: "driver_state \<Rightarrow> bool" where
  loaded:
    "DriverEntry initial_state createDevice createLink setNotify = (STATUS_SUCCESS, s) \<Longrightarrow>
     reachable s"
| device_control:
    "reachable s \<Longrightarrow> g_PendingIrp s \<noteq> Some p \<Longrightarrow> new_IRP Irp \<Longrightarrow>
     reachable (snd (CyberionDeviceControl (arrival s p Irp) p))"
| create_close:
    "reachable s \<Longrightarrow> g_PendingIrp s \<noteq> Some p \<Longrightarrow> new_IRP Irp \<Longrightarrow>
     reachable (snd (CyberionCreateClose (arrival s p Irp) p))"
| notify:
    "reachable s \<Longrightarrow> ProcessNotifyCallback s Pid CreateInfo = Some s' \<Longrightarrow> reachable s'"
| unload:
    "reachable s \<Longrightarrow> reachable (CyberionUnload s)"

text \<open>
  A waiting consumer: a request the dispatcher has accepted (marked pending) that is
  neither completed nor cancelled.
\<close>

definition waiting_consumer :: "driver_state \<Rightarrow> PIRP \<Rightarrow> bool" where
  "waiting_consumer s p =
     (PendingReturned (irps s p) \<and> \<not> Cancel (irps s p) \<and> Completions (irps s p) = 0)"

text \<open>
  The single-slot invariant: the waiting consumers are exactly the request in
  \<^verbatim>\<open>g_PendingIrp\<close>, if any.
\<close>

definition single_slot :: "driver_state \<Rightarrow> bool" where
  "single_slot s = (\<forall>q. waiting_consumer s q = (g_PendingIrp s = Some q))"

text \<open>
  The specification's words for a well-formed decision record: the process id is set and
  the verdict is one of the two enumerators. The source has no such check; this
  definition exists to compare the dispatcher with it.
\<close>

definition spec_well_formed_decision :: "USER_RESPONSE \<Rightarrow> bool" where
  "spec_well_formed_decision r =
     (Response_ProcessId r \<noteq> 0 \<and> (Response r = UserResponseAllow \<or> Response r = UserResponseBlock))"

subsection \<open>Concrete inputs\<close>

text \<open>The path \<^verbatim>\<open>C:\a.exe\<close>: eight code units, sixteen bytes, and a terminating zero.\<close>

definition short_name :: UNICODE_STRING where
  "short_name =
     \<lparr>Length = 16, MaximumLength = 18,
      Buffer = [0x43, 0x3A, 0x5C, 0x61, 0x2E, 0x65, 0x78, 0x65, 0]\<rparr>"

text \<open>A path of 300 code units.\<close>

definition long_name :: UNICODE_STRING where
  "long_name = \<lparr>Length = 600, MaximumLength = 600, Buffer = replicate 300 0x41\<rparr>"

text \<open>The creation info of a process whose parent is process 1.\<close>

definition creation :: "UNICODE_STRING option \<Rightarrow> PS_CREATE_NOTIFY_INFO" where
  "creation name = \<lparr>CreateInfo_ParentProcessId = 1, CreateInfo_ImageFileName = name\<rparr>"

text \<open>Two short paths, \<^verbatim>\<open>A\<close> and \<^verbatim>\<open>AA\<close>.\<close>

definition name_A :: UNICODE_STRING where
  "name_A = \<lparr>Length = 2, MaximumLength = 2, Buffer = [0x41]\<rparr>"

definition name_AA :: UNICODE_STRING where
  "name_AA = \<lparr>Length = 4, MaximumLength = 4, Buffer = [0x41, 0x41]\<rparr>"

text \<open>
  A request for the next event with a buffer of the size of the record, zeroed, as the
  I/O manager hands it to the dispatcher.
\<close>

definition wait_IRP :: IRP where
  "wait_IRP =
     blank_IRP\<lparr>IoControlCode := IOCTL_CYBERION_GET_PROCESS_INFO,
       SystemBuffer := replicate 536 0\<rparr>"

text \<open>
  The driver after a successful load, and then the state in which request 3 waits in
  \<^verbatim>\<open>g_PendingIrp\<close>.
\<close>

definition loaded_state :: driver_state where
  "loaded_state = snd (DriverEntry initial_state STATUS_SUCCESS STATUS_SUCCESS STATUS_SUCCESS)"

definition waiting_state :: driver_state where
  "waiting_state = snd (CyberionDeviceControl (arrival loaded_state 3 wait_IRP) 3)"

text \<open>
  The same with a request at address 5 whose buffer holds the record with both ids 9 and
  a path field full of \<^verbatim>\<open>0xFFFF\<close> when it arrives.
\<close>

definition stale_IRP :: IRP where
  "stale_IRP =
     wait_IRP\<lparr>SystemBuffer :=
       bytes_of_word sizeof_HANDLE (9 :: HANDLE) @ bytes_of_word sizeof_HANDLE (9 :: HANDLE)
       @ bytes_of_WCHARs (replicate 260 0xFFFF)\<rparr>"

definition stale_waiting_state :: driver_state where
  "stale_waiting_state = snd (CyberionDeviceControl (arrival loaded_state 5 stale_IRP) 5)"

text \<open>The same with a request at address 6 whose path field is full of the letter \<^verbatim>\<open>A\<close>.\<close>

definition filled_IRP :: IRP where
  "filled_IRP =
     wait_IRP\<lparr>SystemBuffer :=
       bytes_of_word sizeof_HANDLE (9 :: HANDLE) @ bytes_of_word sizeof_HANDLE (9 :: HANDLE)
       @ bytes_of_WCHARs (replicate 260 0x41)\<rparr>"

definition filled_waiting_state :: driver_state where
  "filled_waiting_state = snd (CyberionDeviceControl (arrival loaded_state 6 filled_IRP) 6)"

text \<open>
  The same with a request at address 4 that has no buffer: user mode gave both buffer
  lengths as zero.
\<close>

definition null_IRP :: IRP where
  "null_IRP = blank_IRP\<lparr>IoControlCode := IOCTL_CYBERION_GET_PROCESS_INFO\<rparr>"

definition null_waiting_state :: driver_state where
  "null_waiting_state = snd (CyberionDeviceControl (arrival loaded_state 4 null_IRP) 4)"

text \<open>A second request for the next event arrives at address 2 while request 3 waits.\<close>

definition second_wait_state :: driver_state where
  "second_wait_state = arrival waiting_state 2 wait_IRP"

text \<open>A well-formed decision: block process 200.\<close>

definition block_decision :: USER_RESPONSE where
  "block_decision = \<lparr>Response_ProcessId = 200, Response = UserResponseBlock\<rparr>"

text \<open>A decision with no process id and a verdict that is neither enumerator.\<close>

definition malformed_decision :: USER_RESPONSE where
  "malformed_decision = \<lparr>Response_ProcessId = 0, Response = 7\<rparr>"

text \<open>A request that submits the decision \<open>r\<close>: its buffer holds the record.\<close>

definition decision_IRP :: "USER_RESPONSE \<Rightarrow> IRP" where
  "decision_IRP r =
     blank_IRP\<lparr>IoControlCode := IOCTL_CYBERION_SEND_RESPONSE,
       SystemBuffer := bytes_of_USER_RESPONSE r\<rparr>"

text \<open>The decision \<open>r\<close> arrives as request 2 while request 3 waits.\<close>

definition decision_state :: "USER_RESPONSE \<Rightarrow> driver_state" where
  "decision_state r = arrival waiting_state 2 (decision_IRP r)"

section \<open>Properties\<close>

subsection \<open>Constants and records\<close>

lemma ioctl_codes:
  "IOCTL_CYBERION_GET_PROCESS_INFO = 0x226004" "IOCTL_CYBERION_SEND_RESPONSE = 0x22A008"
  by (simp_all add: IOCTL_CYBERION_GET_PROCESS_INFO_def IOCTL_CYBERION_SEND_RESPONSE_def
      CTL_CODE_def FILE_DEVICE_UNKNOWN_def METHOD_BUFFERED_def FILE_READ_DATA_def
      FILE_WRITE_DATA_def)

lemma ioctl_codes_distinct: "IOCTL_CYBERION_SEND_RESPONSE \<noteq> IOCTL_CYBERION_GET_PROCESS_INFO"
  by (simp add: ioctl_codes)

lemmas status_defs = STATUS_SUCCESS_def STATUS_PENDING_def STATUS_DEVICE_BUSY_def
  STATUS_INVALID_DEVICE_REQUEST_def STATUS_CANCELLED_def

lemmas layout_defs = sizeof_HANDLE_def sizeof_ULONG_def sizeof_WCHAR_def MAX_PATH_SIZE_def
  offsetof_ProcessId_def offsetof_ParentProcessId_def offsetof_ImageFileName_def
  sizeof_PROCESS_CREATION_INFO_def

lemma busy_not_pending: "STATUS_DEVICE_BUSY \<noteq> STATUS_PENDING"
  by (simp add: status_defs)

lemma IO_STATUS_BLOCK_all_fields:
  "b\<lparr>Status := x, Information := y\<rparr> = \<lparr>Status = x, Information = y\<rparr>"
  by (cases b) simp

lemma update_irp_frame:
  "g_PendingIrp (update_irp Irp f s) = g_PendingIrp s"
  "q \<noteq> Irp \<Longrightarrow> irps (update_irp Irp f s) q = irps s q"
  by (simp_all add: update_irp_def)

subsection \<open>Values in memory\<close>

lemma length_bytes_of_word: "length (bytes_of_word n w) = n"
  by (simp add: bytes_of_word_def)

lemma bit_word_of_bytes:
  "bit (word_of_bytes bs :: 'a::len word) k \<longleftrightarrow>
     k < LENGTH('a) \<and> k div 8 < length bs \<and> bit (bs ! (k div 8)) (k mod 8)"
proof (induction bs arbitrary: k)
  case Nil
  show ?case
    by (simp add: word_of_bytes_def)
next
  case (Cons b bs)
  have step: "word_of_bytes (b # bs) = (ucast b OR push_bit 8 (word_of_bytes bs) :: 'a word)"
    by (simp add: word_of_bytes_def)
  show ?case
  proof (cases "k < 8")
    case True
    then show ?thesis
      by (auto simp add: step bit_or_iff bit_ucast_iff bit_push_bit_iff)
  next
    case False
    then have "k div 8 = Suc ((k - 8) div 8)" "(k - 8) mod 8 = k mod 8"
      by (simp_all add: le_div_geq le_mod_geq)
    moreover from False have "\<not> bit b k"
      by (auto dest: bit_imp_le_length)
    ultimately show ?thesis
      using False by (auto simp add: step bit_or_iff bit_ucast_iff bit_push_bit_iff Cons.IH)
  qed
qed

lemma bit_bytes_of_word_nth:
  "i < n \<Longrightarrow> bit (bytes_of_word n (w :: 'a::len word) ! i) j \<longleftrightarrow> j < 8 \<and> bit w (8 * i + j)"
  by (auto simp add: bytes_of_word_def bit_ucast_iff bit_drop_bit_eq)

text \<open>Reading back the bytes of a value gives the value.\<close>

lemma word_of_bytes_of_word:
  assumes "LENGTH('a::len) \<le> 8 * n"
  shows "word_of_bytes (bytes_of_word n w) = (w :: 'a word)"
proof (rule bit_word_eqI)
  fix k assume k: "k < LENGTH('a)"
  with assms have "k div 8 < n"
    by (simp add: less_mult_imp_div_less mult.commute)
  with k show "bit (word_of_bytes (bytes_of_word n w) :: 'a word) k = bit w k"
    by (simp add: bit_word_of_bytes length_bytes_of_word bit_bytes_of_word_nth)
qed

lemma HANDLE_of_bytes: "word_of_bytes (bytes_of_word sizeof_HANDLE h) = (h :: HANDLE)"
  by (rule word_of_bytes_of_word) (simp add: sizeof_HANDLE_def)

lemma ULONG_of_bytes: "word_of_bytes (bytes_of_word sizeof_ULONG u) = (u :: ULONG)"
  by (rule word_of_bytes_of_word) (simp add: sizeof_ULONG_def)

lemma WCHAR_of_bytes: "word_of_bytes (bytes_of_word sizeof_WCHAR c) = (c :: WCHAR)"
  by (rule word_of_bytes_of_word) (simp add: sizeof_WCHAR_def)

lemma bytes_of_WCHAR_pair:
  "\<exists>lo hi. bytes_of_word sizeof_WCHAR (c :: WCHAR) = [lo, hi]"
  by (simp add: bytes_of_word_def sizeof_WCHAR_def upt_rec numeral_2_eq_2)

lemma bytes_of_WCHARs_simps:
  "bytes_of_WCHARs [] = []"
  "bytes_of_WCHARs (c # cs) = bytes_of_word sizeof_WCHAR c @ bytes_of_WCHARs cs"
  "bytes_of_WCHARs (xs @ ys) = bytes_of_WCHARs xs @ bytes_of_WCHARs ys"
  by (simp_all add: bytes_of_WCHARs_def)

lemma length_bytes_of_WCHARs: "length (bytes_of_WCHARs cs) = 2 * length cs"
  by (induction cs) (simp_all add: bytes_of_WCHARs_simps length_bytes_of_word sizeof_WCHAR_def)

lemma take_bytes_of_WCHARs: "take (2 * k) (bytes_of_WCHARs cs) = bytes_of_WCHARs (take k cs)"
proof (induction cs arbitrary: k)
  case Nil
  show ?case
    by (simp add: bytes_of_WCHARs_simps)
next
  case (Cons c cs)
  show ?case
  proof (cases k)
    case 0
    then show ?thesis
      by (simp add: bytes_of_WCHARs_simps)
  next
    case (Suc j)
    then show ?thesis
      by (simp add: bytes_of_WCHARs_simps length_bytes_of_word sizeof_WCHAR_def Cons.IH)
  qed
qed

lemma drop_bytes_of_WCHARs: "drop (2 * k) (bytes_of_WCHARs cs) = bytes_of_WCHARs (drop k cs)"
proof (induction cs arbitrary: k)
  case Nil
  show ?case
    by (simp add: bytes_of_WCHARs_simps)
next
  case (Cons c cs)
  show ?case
  proof (cases k)
    case 0
    then show ?thesis
      by (simp add: bytes_of_WCHARs_simps)
  next
    case (Suc j)
    then show ?thesis
      by (simp add: bytes_of_WCHARs_simps length_bytes_of_word sizeof_WCHAR_def Cons.IH)
  qed
qed

text \<open>Reading back an array of code units, whatever follows it.\<close>

lemma WCHARs_of_bytes_of_WCHARs:
  "WCHARs_of_bytes (bytes_of_WCHARs cs @ rest) = cs @ WCHARs_of_bytes rest"
proof (induction cs)
  case Nil
  show ?case
    by (simp add: bytes_of_WCHARs_simps)
next
  case (Cons c cs)
  obtain lo hi where pair: "bytes_of_word sizeof_WCHAR c = [lo, hi]"
    using bytes_of_WCHAR_pair by blast
  have "word_of_bytes [lo, hi] = c"
    using WCHAR_of_bytes [of c] by (simp add: pair)
  with Cons show ?case
    by (simp add: bytes_of_WCHARs_simps pair)
qed

lemma drop_WCHARs_of_bytes: "drop k (WCHARs_of_bytes bs) = WCHARs_of_bytes (drop (2 * k) bs)"
proof (induction bs arbitrary: k rule: WCHARs_of_bytes.induct)
  case (1 lo hi rest)
  then show ?case
    by (cases k) simp_all
qed (simp_all add: drop_Cons split: nat.split)

lemma length_WCHARs_of_bytes: "length (WCHARs_of_bytes bs) = length bs div 2"
  by (induction bs rule: WCHARs_of_bytes.induct) simp_all

lemma USER_RESPONSE_of_bytes: "USER_RESPONSE_of (bytes_of_USER_RESPONSE r) = r"
  by (simp add: USER_RESPONSE_of_def bytes_of_USER_RESPONSE_def length_bytes_of_word
      HANDLE_of_bytes ULONG_of_bytes)

subsection \<open>The copy of the image path\<close>

text \<open>The bounded path of a valid string, and the bytes the callback copies.\<close>

lemma valid_copies_whole_units:
  "valid_UNICODE_STRING name \<Longrightarrow> copies_whole_units name"
  by (auto simp add: valid_UNICODE_STRING_def copies_whole_units_def min_def layout_defs)

lemma long_copies_whole_units:
  assumes "MAX_PATH_SIZE < length (image_path name)"
  shows "copies_whole_units name"
proof -
  from assms have "MAX_PATH_SIZE < unat (Length name) div 2" "MAX_PATH_SIZE < length (Buffer name)"
    by (simp_all add: image_path_def sizeof_WCHAR_def)
  then have "min (unat (Length name)) (MAX_PATH_SIZE * sizeof_WCHAR) = 2 * MAX_PATH_SIZE"
    and "2 * MAX_PATH_SIZE \<le> sizeof_WCHAR * length (Buffer name)"
    unfolding sizeof_WCHAR_def by arith+
  then show ?thesis
    by (simp add: copies_whole_units_def)
qed

lemma bounded_path_bytes:
  assumes "copies_whole_units name"
  shows "take (min (unat (Length name)) (MAX_PATH_SIZE * sizeof_WCHAR))
       (bytes_of_WCHARs (Buffer name))
     = bytes_of_WCHARs (take MAX_PATH_SIZE (image_path name))"
    and "min (unat (Length name)) (MAX_PATH_SIZE * sizeof_WCHAR)
     = 2 * length (take MAX_PATH_SIZE (image_path name))"
    and "min (unat (Length name)) (MAX_PATH_SIZE * sizeof_WCHAR)
     \<le> length (bytes_of_WCHARs (Buffer name))"
proof -
  let ?n = "min (unat (Length name)) (MAX_PATH_SIZE * sizeof_WCHAR)"
  let ?k = "min (unat (Length name) div 2) MAX_PATH_SIZE"
  from assms have ev: "even ?n" and le: "?n \<le> 2 * length (Buffer name)"
    by (simp_all add: copies_whole_units_def sizeof_WCHAR_def)
  have half: "?n div 2 = ?k"
    by (simp add: min_def layout_defs) linarith
  with ev have n: "?n = 2 * ?k"
    by (metis dvd_mult_div_cancel)
  have path: "take MAX_PATH_SIZE (image_path name) = take ?k (Buffer name)"
    by (simp add: image_path_def sizeof_WCHAR_def min.commute)
  from le have "?k \<le> length (Buffer name)"
    unfolding n by simp
  then have len: "length (take MAX_PATH_SIZE (image_path name)) = ?k"
    unfolding path by simp
  show "take ?n (bytes_of_WCHARs (Buffer name))
      = bytes_of_WCHARs (take MAX_PATH_SIZE (image_path name))"
    unfolding n path by (rule take_bytes_of_WCHARs)
  show "?n = 2 * length (take MAX_PATH_SIZE (image_path name))"
    unfolding len by (rule n)
  from le show "?n \<le> length (bytes_of_WCHARs (Buffer name))"
    by (simp add: length_bytes_of_WCHARs)
qed

lemma RtlCopyMemory_within:
  assumes "n \<le> length src" and "off + n \<le> length buf"
  shows "RtlCopyMemory buf off src n = Some (take off buf @ take n src @ drop (off + n) buf)"
proof (cases "n = 0")
  case True
  then show ?thesis
    by (simp add: RtlCopyMemory_def)
next
  case False
  from assms(1) have "length (take n src) = n"
    by simp
  with assms(2) have "write_bytes buf off (take n src)
      = Some (take off buf @ take n src @ drop (off + n) buf)"
    by (simp add: write_bytes_def)
  with False assms(1) show ?thesis
    by (simp add: RtlCopyMemory_def)
qed

text \<open>
  The copy of a string into a buffer that starts with the bytes \<open>ids\<close> and has room
  for the whole path field after them.
\<close>

lemma copy_bounded_path:
  assumes "copies_whole_units name"
    and "length ids = off"
    and "off + MAX_PATH_SIZE * sizeof_WCHAR \<le> length old"
  shows "RtlCopyMemory (ids @ drop off old) off (bytes_of_WCHARs (Buffer name))
       (min (unat (Length name)) (MAX_PATH_SIZE * sizeof_WCHAR))
     = Some (ids @ bytes_of_WCHARs (take MAX_PATH_SIZE (image_path name))
         @ drop (off + 2 * length (take MAX_PATH_SIZE (image_path name))) old)"
proof -
  let ?n = "min (unat (Length name)) (MAX_PATH_SIZE * sizeof_WCHAR)"
  let ?src = "bytes_of_WCHARs (Buffer name)"
  let ?buf = "ids @ drop off old"
  note path = bounded_path_bytes [OF assms(1)]
  from assms(2,3) have "off + ?n \<le> length ?buf"
    by simp
  with path(3) have "RtlCopyMemory ?buf off ?src ?n
      = Some (take off ?buf @ take ?n ?src @ drop (off + ?n) ?buf)"
    by (rule RtlCopyMemory_within)
  moreover from assms(2) have "take off ?buf = ids"
    by simp
  moreover from assms(2) have "drop (off + ?n) ?buf = drop (off + ?n) old"
    by (simp add: add.commute)
  ultimately have "RtlCopyMemory ?buf off ?src ?n
      = Some (ids @ take ?n ?src @ drop (off + ?n) old)"
    by (simp only:)
  then show ?thesis
    by (simp only: path(1) path(2) [symmetric])
qed

subsection \<open>The callback\<close>

lemma callback_without_waiter:
  "g_PendingIrp s = None \<Longrightarrow> ProcessNotifyCallback s Pid CreateInfo = Some s"
  by (simp add: ProcessNotifyCallback_def split: option.split)

text \<open>The two stores of the ids into a buffer that has room for them.\<close>

lemma store_ids:
  assumes "offsetof_ImageFileName \<le> length buf"
  shows "write_bytes buf offsetof_ProcessId (bytes_of_word sizeof_HANDLE Pid)
       = Some (bytes_of_word sizeof_HANDLE Pid @ drop sizeof_HANDLE buf)"
    and "write_bytes (bytes_of_word sizeof_HANDLE Pid @ drop sizeof_HANDLE buf)
         offsetof_ParentProcessId (bytes_of_word sizeof_HANDLE Parent)
       = Some (bytes_of_word sizeof_HANDLE Pid @ bytes_of_word sizeof_HANDLE Parent
           @ drop offsetof_ImageFileName buf)"
  using assms
  by (simp_all add: write_bytes_def length_bytes_of_word offsetof_ProcessId_def
      offsetof_ParentProcessId_def offsetof_ImageFileName_def add.commute)

text \<open>
  The bytes the callback leaves in the buffer of the waiting request for the process
  \<open>Pid\<close> with creation info \<open>ci\<close>, when the buffer holds a whole record.
\<close>

lemma callback_delivers:
  assumes "g_PendingIrp s = Some p"
    and "holds_PROCESS_CREATION_INFO (SystemBuffer (irps s p))"
    and "case CreateInfo_ImageFileName ci of None \<Rightarrow> True | Some name \<Rightarrow> copies_whole_units name"
  shows "ProcessNotifyCallback s Pid (Some ci) =
     Some (s\<lparr>g_PendingIrp := None,
       irps := (irps s)(p := (irps s p)
         \<lparr>SystemBuffer :=
            bytes_of_word sizeof_HANDLE Pid
            @ bytes_of_word sizeof_HANDLE (CreateInfo_ParentProcessId ci)
            @ (case CreateInfo_ImageFileName ci of
                 None \<Rightarrow> drop offsetof_ImageFileName (SystemBuffer (irps s p))
               | Some name \<Rightarrow>
                   bytes_of_WCHARs (take MAX_PATH_SIZE (image_path name))
                   @ drop (offsetof_ImageFileName
                           + 2 * length (take MAX_PATH_SIZE (image_path name)))
                       (SystemBuffer (irps s p))),
          IoStatus := \<lparr>Status = STATUS_SUCCESS,
                       Information = of_nat sizeof_PROCESS_CREATION_INFO\<rparr>,
          Completions := Suc (Completions (irps s p))\<rparr>)\<rparr>)"
proof -
  let ?old = "SystemBuffer (irps s p)"
  let ?A = "bytes_of_word sizeof_HANDLE Pid"
  let ?B = "bytes_of_word sizeof_HANDLE (CreateInfo_ParentProcessId ci)"
  from assms(2) have whole: "sizeof_PROCESS_CREATION_INFO \<le> length ?old"
    by (simp add: holds_PROCESS_CREATION_INFO_def)
  then have room: "offsetof_ImageFileName \<le> length ?old"
    and field: "offsetof_ImageFileName + MAX_PATH_SIZE * sizeof_WCHAR \<le> length ?old"
    by (simp_all add: layout_defs)
  note ids = store_ids [OF room]
  have len_ids: "length (?A @ ?B) = offsetof_ImageFileName"
    by (simp add: length_bytes_of_word offsetof_ImageFileName_def)
  have third: "(case CreateInfo_ImageFileName ci of
        None \<Rightarrow> Some (?A @ ?B @ drop offsetof_ImageFileName ?old)
      | Some name \<Rightarrow>
          RtlCopyMemory (?A @ ?B @ drop offsetof_ImageFileName ?old) offsetof_ImageFileName
            (bytes_of_WCHARs (Buffer name))
            (min (unat (Length name)) (MAX_PATH_SIZE * sizeof_WCHAR)))
      = Some (?A @ ?B @ (case CreateInfo_ImageFileName ci of
             None \<Rightarrow> drop offsetof_ImageFileName ?old
           | Some name \<Rightarrow>
               bytes_of_WCHARs (take MAX_PATH_SIZE (image_path name))
               @ drop (offsetof_ImageFileName + 2 * length (take MAX_PATH_SIZE (image_path name)))
                   ?old))"
  proof (cases "CreateInfo_ImageFileName ci")
    case None
    then show ?thesis
      by (simp only: option.case)
  next
    case (Some name)
    with assms(3) have valid: "copies_whole_units name"
      by simp
    show ?thesis
      unfolding Some option.case
      using copy_bounded_path [OF valid len_ids field] by (simp only: append_assoc)
  qed
  show ?thesis
    using assms(1)
    by (simp add: ProcessNotifyCallback_def ids third update_irp_def IoCompleteRequest_def
        IO_STATUS_BLOCK_all_fields)
qed

text \<open>The record that a reader finds in the delivered bytes.\<close>

lemma record_of_ids:
  "PROCESS_CREATION_INFO_of
     (bytes_of_word sizeof_HANDLE a @ bytes_of_word sizeof_HANDLE b @ rest)
   = \<lparr>ProcessId = a, ParentProcessId = b,
      ImageFileName = WCHARs_of_bytes (take (MAX_PATH_SIZE * sizeof_WCHAR) rest)\<rparr>"
  by (simp add: PROCESS_CREATION_INFO_of_def length_bytes_of_word HANDLE_of_bytes
      offsetof_ProcessId_def offsetof_ParentProcessId_def offsetof_ImageFileName_def)

lemma record_of_delivered_path:
  assumes "length P \<le> MAX_PATH_SIZE"
  shows "PROCESS_CREATION_INFO_of
       (bytes_of_word sizeof_HANDLE a @ bytes_of_word sizeof_HANDLE b @ bytes_of_WCHARs P
        @ drop (offsetof_ImageFileName + 2 * length P) old)
     = \<lparr>ProcessId = a, ParentProcessId = b,
        ImageFileName = P @ drop (length P) (ImageFileName (PROCESS_CREATION_INFO_of old))\<rparr>"
proof -
  let ?field = "MAX_PATH_SIZE * sizeof_WCHAR"
  let ?rest = "drop (offsetof_ImageFileName + 2 * length P) old"
  have "take ?field (bytes_of_WCHARs P @ ?rest)
      = bytes_of_WCHARs P @ take (?field - 2 * length P) ?rest"
    using assms by (simp add: length_bytes_of_WCHARs sizeof_WCHAR_def)
  then have new: "WCHARs_of_bytes (take ?field (bytes_of_WCHARs P @ ?rest))
      = P @ WCHARs_of_bytes (take (?field - 2 * length P) ?rest)"
    by (simp only: WCHARs_of_bytes_of_WCHARs)
  have "drop (length P) (ImageFileName (PROCESS_CREATION_INFO_of old))
      = WCHARs_of_bytes (drop (2 * length P) (take ?field (drop offsetof_ImageFileName old)))"
    by (simp add: PROCESS_CREATION_INFO_of_def drop_WCHARs_of_bytes)
  also have "drop (2 * length P) (take ?field (drop offsetof_ImageFileName old))
      = take (?field - 2 * length P) ?rest"
    by (simp add: drop_take add.commute)
  finally show ?thesis
    by (simp only: record_of_ids new)
qed

lemma record_of_delivered_ids:
  "PROCESS_CREATION_INFO_of
     (bytes_of_word sizeof_HANDLE a @ bytes_of_word sizeof_HANDLE b
      @ drop offsetof_ImageFileName old)
   = \<lparr>ProcessId = a, ParentProcessId = b,
      ImageFileName = ImageFileName (PROCESS_CREATION_INFO_of old)\<rparr>"
  by (simp add: record_of_ids) (simp add: PROCESS_CREATION_INFO_of_def)

text \<open>
  A delivery to a request whose buffer holds a whole record: the new state, and in it the
  record in the buffer.
\<close>

lemma delivered_record:
  assumes "g_PendingIrp s = Some p"
    and "holds_PROCESS_CREATION_INFO (SystemBuffer (irps s p))"
    and "case CreateInfo_ImageFileName ci of None \<Rightarrow> True | Some name \<Rightarrow> copies_whole_units name"
  obtains s' where "ProcessNotifyCallback s Pid (Some ci) = Some s'"
    and "g_PendingIrp s' = None"
    and "Completions (irps s' p) = Suc (Completions (irps s p))"
    and "IoStatus (irps s' p) =
      \<lparr>Status = STATUS_SUCCESS, Information = of_nat sizeof_PROCESS_CREATION_INFO\<rparr>"
    and "\<forall>q. q \<noteq> p \<longrightarrow> irps s' q = irps s q"
    and "length (SystemBuffer (irps s' p)) = length (SystemBuffer (irps s p))"
    and "drop sizeof_PROCESS_CREATION_INFO (SystemBuffer (irps s' p))
      = drop sizeof_PROCESS_CREATION_INFO (SystemBuffer (irps s p))"
    and "PROCESS_CREATION_INFO_of (SystemBuffer (irps s' p)) =
      \<lparr>ProcessId = Pid, ParentProcessId = CreateInfo_ParentProcessId ci,
       ImageFileName =
         (case CreateInfo_ImageFileName ci of
            None \<Rightarrow> ImageFileName (PROCESS_CREATION_INFO_of (SystemBuffer (irps s p)))
          | Some name \<Rightarrow>
              take MAX_PATH_SIZE (image_path name)
              @ drop (length (take MAX_PATH_SIZE (image_path name)))
                  (ImageFileName (PROCESS_CREATION_INFO_of (SystemBuffer (irps s p)))))\<rparr>"
proof -
  let ?old = "SystemBuffer (irps s p)"
  let ?new = "bytes_of_word sizeof_HANDLE Pid
      @ bytes_of_word sizeof_HANDLE (CreateInfo_ParentProcessId ci)
      @ (case CreateInfo_ImageFileName ci of
           None \<Rightarrow> drop offsetof_ImageFileName ?old
         | Some name \<Rightarrow>
             bytes_of_WCHARs (take MAX_PATH_SIZE (image_path name))
             @ drop (offsetof_ImageFileName + 2 * length (take MAX_PATH_SIZE (image_path name)))
                 ?old)"
  let ?s' = "s\<lparr>g_PendingIrp := None,
       irps := (irps s)(p := (irps s p)
         \<lparr>SystemBuffer := ?new,
          IoStatus := \<lparr>Status = STATUS_SUCCESS,
                       Information = of_nat sizeof_PROCESS_CREATION_INFO\<rparr>,
          Completions := Suc (Completions (irps s p))\<rparr>)\<rparr>"
  from assms(2) have whole: "sizeof_PROCESS_CREATION_INFO \<le> length ?old"
    by (simp add: holds_PROCESS_CREATION_INFO_def)
  have result: "ProcessNotifyCallback s Pid (Some ci) = Some ?s'"
    by (rule callback_delivers [OF assms])
  have buffer: "SystemBuffer (irps ?s' p) = ?new"
    by simp
  have len: "length ?new = length ?old"
  proof (cases "CreateInfo_ImageFileName ci")
    case None
    with whole show ?thesis
      by (simp add: length_bytes_of_word layout_defs)
  next
    case (Some name)
    have "length (take MAX_PATH_SIZE (image_path name)) \<le> MAX_PATH_SIZE"
      by simp
    with whole Some show ?thesis
      by (simp add: length_bytes_of_word length_bytes_of_WCHARs layout_defs del: length_take)
  qed
  have beyond: "drop sizeof_PROCESS_CREATION_INFO ?new = drop sizeof_PROCESS_CREATION_INFO ?old"
  proof (cases "CreateInfo_ImageFileName ci")
    case None
    then show ?thesis
      by (simp add: length_bytes_of_word layout_defs)
  next
    case (Some name)
    have "length (take MAX_PATH_SIZE (image_path name)) \<le> MAX_PATH_SIZE"
      by simp
    with Some show ?thesis
      by (simp add: length_bytes_of_word length_bytes_of_WCHARs layout_defs del: length_take)
  qed
  have delivered: "PROCESS_CREATION_INFO_of ?new =
      \<lparr>ProcessId = Pid, ParentProcessId = CreateInfo_ParentProcessId ci,
       ImageFileName =
         (case CreateInfo_ImageFileName ci of
            None \<Rightarrow> ImageFileName (PROCESS_CREATION_INFO_of ?old)
          | Some name \<Rightarrow>
              take MAX_PATH_SIZE (image_path name)
              @ drop (length (take MAX_PATH_SIZE (image_path name)))
                  (ImageFileName (PROCESS_CREATION_INFO_of ?old)))\<rparr>"
  proof (cases "CreateInfo_ImageFileName ci")
    case None
    then show ?thesis
      by (simp only: option.case record_of_delivered_ids)
  next
    case (Some name)
    have "length (take MAX_PATH_SIZE (image_path name)) \<le> MAX_PATH_SIZE"
      by simp
    then show ?thesis
      unfolding Some option.case by (rule record_of_delivered_path)
  qed
  show thesis
  proof (rule that [OF result])
    show "g_PendingIrp ?s' = None"
      by simp
    show "Completions (irps ?s' p) = Suc (Completions (irps s p))"
      by simp
    show "IoStatus (irps ?s' p) =
        \<lparr>Status = STATUS_SUCCESS, Information = of_nat sizeof_PROCESS_CREATION_INFO\<rparr>"
      by simp
    show "\<forall>q. q \<noteq> p \<longrightarrow> irps ?s' q = irps s q"
      by simp
    show "length (SystemBuffer (irps ?s' p)) = length ?old"
      unfolding buffer by (rule len)
    show "drop sizeof_PROCESS_CREATION_INFO (SystemBuffer (irps ?s' p))
        = drop sizeof_PROCESS_CREATION_INFO ?old"
      unfolding buffer by (rule beyond)
    show "PROCESS_CREATION_INFO_of (SystemBuffer (irps ?s' p)) =
        \<lparr>ProcessId = Pid, ParentProcessId = CreateInfo_ParentProcessId ci,
         ImageFileName =
           (case CreateInfo_ImageFileName ci of
              None \<Rightarrow> ImageFileName (PROCESS_CREATION_INFO_of ?old)
            | Some name \<Rightarrow>
                take MAX_PATH_SIZE (image_path name)
                @ drop (length (take MAX_PATH_SIZE (image_path name)))
                    (ImageFileName (PROCESS_CREATION_INFO_of ?old)))\<rparr>"
      unfolding buffer by (rule delivered)
  qed
qed

text \<open>
  A delivery that finds its own path already in the path field leaves the field as it was:
  the record tells the path from what followed it only by where the field's old contents
  begin, which it does not say.
\<close>

lemma callback_echo:
  assumes "g_PendingIrp s = Some p"
    and "SystemBuffer (irps s p) = ids @ bytes_of_WCHARs field"
    and "length ids = offsetof_ImageFileName"
    and "length field = MAX_PATH_SIZE"
    and "CreateInfo_ImageFileName ci = Some name"
    and "valid_UNICODE_STRING name"
    and "take MAX_PATH_SIZE (image_path name)
       = take (length (take MAX_PATH_SIZE (image_path name))) field"
  shows "ProcessNotifyCallback s Pid (Some ci) =
     Some (s\<lparr>g_PendingIrp := None,
       irps := (irps s)(p := (irps s p)
         \<lparr>SystemBuffer :=
            bytes_of_word sizeof_HANDLE Pid
            @ bytes_of_word sizeof_HANDLE (CreateInfo_ParentProcessId ci)
            @ bytes_of_WCHARs field,
          IoStatus := \<lparr>Status = STATUS_SUCCESS,
                       Information = of_nat sizeof_PROCESS_CREATION_INFO\<rparr>,
          Completions := Suc (Completions (irps s p))\<rparr>)\<rparr>)"
proof -
  let ?P = "take MAX_PATH_SIZE (image_path name)"
  from assms(2-4) have whole: "holds_PROCESS_CREATION_INFO (SystemBuffer (irps s p))"
    by (simp add: holds_PROCESS_CREATION_INFO_def length_bytes_of_WCHARs layout_defs)
  from assms(5,6) have ok: "case CreateInfo_ImageFileName ci of
      None \<Rightarrow> True | Some name \<Rightarrow> copies_whole_units name"
    by (simp add: valid_copies_whole_units)
  have "drop (offsetof_ImageFileName + 2 * length ?P) (ids @ bytes_of_WCHARs field)
      = drop (2 * length ?P) (bytes_of_WCHARs field)"
    using assms(3) by (simp add: add.commute)
  also have "\<dots> = bytes_of_WCHARs (drop (length ?P) field)"
    by (rule drop_bytes_of_WCHARs)
  finally have "bytes_of_WCHARs ?P
        @ drop (offsetof_ImageFileName + 2 * length ?P) (ids @ bytes_of_WCHARs field)
      = bytes_of_WCHARs (?P @ drop (length ?P) field)"
    by (simp only: bytes_of_WCHARs_simps)
  also have "?P @ drop (length ?P) field = field"
    by (subst assms(7)) (rule append_take_drop_id)
  finally show ?thesis
    by (simp only: callback_delivers [OF assms(1) whole ok] assms(2) assms(5) option.case)
qed

subsection \<open>The dispatcher, case by case\<close>

lemma control_busy:
  assumes "IoControlCode (irps s Irp) = IOCTL_CYBERION_GET_PROCESS_INFO"
    and "g_PendingIrp s = Some p"
  shows "CyberionDeviceControl s Irp =
     (STATUS_DEVICE_BUSY, update_irp Irp (complete_with STATUS_DEVICE_BUSY) s)"
  using assms by (simp add: CyberionDeviceControl_def busy_not_pending)

lemma control_accept:
  assumes "IoControlCode (irps s Irp) = IOCTL_CYBERION_GET_PROCESS_INFO"
    and "g_PendingIrp s = None"
  shows "CyberionDeviceControl s Irp =
     (STATUS_PENDING, update_irp Irp IoMarkIrpPending (s\<lparr>g_PendingIrp := Some Irp\<rparr>))"
  using assms by (simp add: CyberionDeviceControl_def)

lemma control_response:
  assumes "IoControlCode (irps s Irp) = IOCTL_CYBERION_SEND_RESPONSE"
  shows "CyberionDeviceControl s Irp =
     (STATUS_SUCCESS, update_irp Irp (complete_with STATUS_SUCCESS) s)"
  using assms by (simp add: CyberionDeviceControl_def ioctl_codes_distinct)

lemma control_other:
  assumes "IoControlCode (irps s Irp) \<noteq> IOCTL_CYBERION_GET_PROCESS_INFO"
    and "IoControlCode (irps s Irp) \<noteq> IOCTL_CYBERION_SEND_RESPONSE"
  shows "CyberionDeviceControl s Irp =
     (STATUS_INVALID_DEVICE_REQUEST,
      update_irp Irp (complete_with STATUS_INVALID_DEVICE_REQUEST) s)"
  using assms by (simp add: CyberionDeviceControl_def)

lemma completed_request:
  "irps (update_irp Irp (complete_with status) s) Irp =
     (irps s Irp)\<lparr>IoStatus := \<lparr>Status = status, Information = 0\<rparr>,
                  Completions := Suc (Completions (irps s Irp))\<rparr>"
  by (simp add: update_irp_def complete_with_def IoCompleteRequest_def)

subsection \<open>Unload\<close>

lemma unload_never_completes:
  "Completions (irps (CyberionUnload s) q) = Completions (irps s q)"
  "IoStatus (irps (CyberionUnload s) q) = IoStatus (irps s q)"
  by (simp_all add: CyberionUnload_def update_irp_def IoCancelIrp_def Let_def
      split: option.split)

lemma unload_clears_slot: "g_PendingIrp (CyberionUnload s) = None"
  by (simp add: CyberionUnload_def update_irp_def Let_def split: option.split)

subsection \<open>The concrete inputs, evaluated\<close>

lemma loaded_state_eq:
  "loaded_state =
     initial_state\<lparr>DeviceCreated := True, SymbolicLinkCreated := True,
       NotifyRoutineRegistered := True\<rparr>"
  by (simp add: loaded_state_def DriverEntry_def NT_SUCCESS_def STATUS_SUCCESS_def)

lemma loaded_state_slot: "g_PendingIrp loaded_state = None"
  by (simp add: loaded_state_eq initial_state_def)

lemma loaded_state_reachable: "reachable loaded_state"
proof -
  have "DriverEntry initial_state STATUS_SUCCESS STATUS_SUCCESS STATUS_SUCCESS
      = (STATUS_SUCCESS, loaded_state)"
    by (simp add: loaded_state_def DriverEntry_def NT_SUCCESS_def STATUS_SUCCESS_def)
  then show ?thesis
    by (rule reachable.loaded)
qed

lemma accepted_state:
  assumes "g_PendingIrp s = None" and "IoControlCode Irp = IOCTL_CYBERION_GET_PROCESS_INFO"
  shows "snd (CyberionDeviceControl (arrival s p Irp) p) =
     s\<lparr>g_PendingIrp := Some p, irps := (irps s)(p := Irp\<lparr>PendingReturned := True\<rparr>)\<rparr>"
proof -
  from assms have "IoControlCode (irps (arrival s p Irp) p) = IOCTL_CYBERION_GET_PROCESS_INFO"
    and "g_PendingIrp (arrival s p Irp) = None"
    by (simp_all add: arrival_def)
  then show ?thesis
    by (simp add: control_accept arrival_def update_irp_def IoMarkIrpPending_def)
qed

lemma wait_codes:
  "IoControlCode wait_IRP = IOCTL_CYBERION_GET_PROCESS_INFO"
  "IoControlCode stale_IRP = IOCTL_CYBERION_GET_PROCESS_INFO"
  "IoControlCode filled_IRP = IOCTL_CYBERION_GET_PROCESS_INFO"
  "IoControlCode null_IRP = IOCTL_CYBERION_GET_PROCESS_INFO"
  by (simp_all add: wait_IRP_def stale_IRP_def filled_IRP_def null_IRP_def)

lemma new_requests:
  "new_IRP wait_IRP" "new_IRP stale_IRP" "new_IRP filled_IRP" "new_IRP null_IRP"
  by (simp_all add: new_IRP_def wait_IRP_def stale_IRP_def filled_IRP_def null_IRP_def
      blank_IRP_def)

lemma waiting_state_eq:
  "waiting_state =
     loaded_state\<lparr>g_PendingIrp := Some 3,
       irps := (irps loaded_state)(3 := wait_IRP\<lparr>PendingReturned := True\<rparr>)\<rparr>"
  unfolding waiting_state_def by (rule accepted_state [OF loaded_state_slot wait_codes(1)])

lemma waiting_state_slot: "g_PendingIrp waiting_state = Some 3"
  by (simp add: waiting_state_eq)

lemma waiting_state_request:
  "irps waiting_state 3 = wait_IRP\<lparr>PendingReturned := True\<rparr>"
  by (simp add: waiting_state_eq)

lemma waiting_state_buffer: "SystemBuffer (irps waiting_state 3) = replicate 536 0"
  by (simp add: waiting_state_request wait_IRP_def)

lemma waiting_state_whole: "holds_PROCESS_CREATION_INFO (SystemBuffer (irps waiting_state 3))"
  by (simp add: waiting_state_buffer holds_PROCESS_CREATION_INFO_def layout_defs)

lemma waiting_state_reachable: "reachable waiting_state"
  unfolding waiting_state_def
  by (rule reachable.device_control [OF loaded_state_reachable _ new_requests(1)])
    (simp add: loaded_state_slot)

lemma stale_waiting_state_eq:
  "stale_waiting_state =
     loaded_state\<lparr>g_PendingIrp := Some 5,
       irps := (irps loaded_state)(5 := stale_IRP\<lparr>PendingReturned := True\<rparr>)\<rparr>"
  unfolding stale_waiting_state_def by (rule accepted_state [OF loaded_state_slot wait_codes(2)])

lemma stale_waiting_state_slot: "g_PendingIrp stale_waiting_state = Some 5"
  by (simp add: stale_waiting_state_eq)

lemma stale_waiting_state_buffer:
  "SystemBuffer (irps stale_waiting_state 5) =
     bytes_of_word sizeof_HANDLE (9 :: HANDLE) @ bytes_of_word sizeof_HANDLE (9 :: HANDLE)
     @ bytes_of_WCHARs (replicate 260 0xFFFF)"
  by (simp add: stale_waiting_state_eq stale_IRP_def)

lemma stale_waiting_state_whole:
  "holds_PROCESS_CREATION_INFO (SystemBuffer (irps stale_waiting_state 5))"
  by (simp add: stale_waiting_state_buffer holds_PROCESS_CREATION_INFO_def length_bytes_of_word
      length_bytes_of_WCHARs layout_defs)

lemma stale_waiting_state_record:
  "PROCESS_CREATION_INFO_of (SystemBuffer (irps stale_waiting_state 5)) =
     \<lparr>ProcessId = 9, ParentProcessId = 9, ImageFileName = replicate 260 0xFFFF\<rparr>"
proof -
  have "WCHARs_of_bytes (bytes_of_WCHARs (replicate 260 0xFFFF) @ []) = replicate 260 0xFFFF @ []"
    by (simp only: WCHARs_of_bytes_of_WCHARs WCHARs_of_bytes.simps)
  moreover have "take (MAX_PATH_SIZE * sizeof_WCHAR) (bytes_of_WCHARs (replicate 260 0xFFFF))
      = bytes_of_WCHARs (replicate 260 0xFFFF)"
    by (simp add: length_bytes_of_WCHARs layout_defs)
  ultimately show ?thesis
    by (simp only: stale_waiting_state_buffer record_of_ids append_Nil2)
qed

lemma filled_waiting_state_eq:
  "filled_waiting_state =
     loaded_state\<lparr>g_PendingIrp := Some 6,
       irps := (irps loaded_state)(6 := filled_IRP\<lparr>PendingReturned := True\<rparr>)\<rparr>"
  unfolding filled_waiting_state_def
  by (rule accepted_state [OF loaded_state_slot wait_codes(3)])

lemma null_waiting_state_eq:
  "null_waiting_state =
     loaded_state\<lparr>g_PendingIrp := Some 4,
       irps := (irps loaded_state)(4 := null_IRP\<lparr>PendingReturned := True\<rparr>)\<rparr>"
  unfolding null_waiting_state_def by (rule accepted_state [OF loaded_state_slot wait_codes(4)])

lemma null_waiting_state_reachable: "reachable null_waiting_state"
  unfolding null_waiting_state_def
  by (rule reachable.device_control [OF loaded_state_reachable _ new_requests(4)])
    (simp add: loaded_state_slot)

lemma short_name_valid: "valid_UNICODE_STRING short_name"
  by (simp add: valid_UNICODE_STRING_def short_name_def sizeof_WCHAR_def)

lemma short_name_path:
  "image_path short_name = [0x43, 0x3A, 0x5C, 0x61, 0x2E, 0x65, 0x78, 0x65]"
  by (simp add: image_path_def short_name_def sizeof_WCHAR_def)

lemma short_name_bounded:
  "take MAX_PATH_SIZE (image_path short_name) = [0x43, 0x3A, 0x5C, 0x61, 0x2E, 0x65, 0x78, 0x65]"
  by (simp add: short_name_path MAX_PATH_SIZE_def)

lemma long_name_path: "image_path long_name = replicate 300 0x41"
  by (simp add: image_path_def long_name_def sizeof_WCHAR_def)

lemma names_A:
  "valid_UNICODE_STRING name_A" "valid_UNICODE_STRING name_AA"
  "image_path name_A = [0x41]" "image_path name_AA = [0x41, 0x41]"
  by (simp_all add: valid_UNICODE_STRING_def image_path_def name_A_def name_AA_def
      sizeof_WCHAR_def)

section \<open>The claims\<close>

subsection \<open>Delivery to a waiting request\<close>

text \<open>
  Claim C1, as the specification states it: in every state with a waiting consumer, a
  publish completes the waiting request with exactly the published event. It fails in two
  ways. The events of the paths \<^verbatim>\<open>A\<close> and \<^verbatim>\<open>AA\<close>, delivered to a request whose path field
  is full of the letter \<^verbatim>\<open>A\<close>, leave the same state: what the request receives does not
  tell the two events apart. And the dispatcher accepts a request without a buffer as the
  waiting consumer; a publish in that state stores outside the buffer, so the callback
  has no defined result.
\<close>

theorem delivery_is_not_exactly_the_event:
  "image_path name_A \<noteq> image_path name_AA \<and>
   reachable filled_waiting_state \<and>
   g_PendingIrp filled_waiting_state = Some 6 \<and>
   ProcessNotifyCallback filled_waiting_state 200 (Some (creation (Some name_A))) \<noteq> None \<and>
   ProcessNotifyCallback filled_waiting_state 200 (Some (creation (Some name_A)))
     = ProcessNotifyCallback filled_waiting_state 200 (Some (creation (Some name_AA))) \<and>
   reachable null_waiting_state \<and>
   g_PendingIrp null_waiting_state = Some 4 \<and>
   waiting_consumer null_waiting_state 4 \<and>
   ProcessNotifyCallback null_waiting_state 200 (Some (creation (Some short_name))) = None"
proof -
  have differ: "image_path name_A \<noteq> image_path name_AA"
    by (simp add: names_A)
  have reach: "reachable filled_waiting_state"
    unfolding filled_waiting_state_def
    by (rule reachable.device_control [OF loaded_state_reachable _ new_requests(3)])
      (simp add: loaded_state_slot)
  have slot: "g_PendingIrp filled_waiting_state = Some 6"
    by (simp add: filled_waiting_state_eq)
  have buffer: "SystemBuffer (irps filled_waiting_state 6) =
      (bytes_of_word sizeof_HANDLE (9 :: HANDLE) @ bytes_of_word sizeof_HANDLE (9 :: HANDLE))
      @ bytes_of_WCHARs (replicate 260 0x41)"
    by (simp add: filled_waiting_state_eq filled_IRP_def)
  have ids: "length (bytes_of_word sizeof_HANDLE (9 :: HANDLE)
      @ bytes_of_word sizeof_HANDLE (9 :: HANDLE)) = offsetof_ImageFileName"
    by (simp add: length_bytes_of_word offsetof_ImageFileName_def)
  have field: "length (replicate 260 (0x41 :: WCHAR)) = MAX_PATH_SIZE"
    by (simp add: MAX_PATH_SIZE_def)
  have name: "CreateInfo_ImageFileName (creation (Some name)) = Some name" for name
    by (simp add: creation_def)
  have prefix_A: "take MAX_PATH_SIZE (image_path name_A)
      = take (length (take MAX_PATH_SIZE (image_path name_A))) (replicate 260 0x41)"
    by (simp add: names_A MAX_PATH_SIZE_def)
  have prefix_AA: "take MAX_PATH_SIZE (image_path name_AA)
      = take (length (take MAX_PATH_SIZE (image_path name_AA))) (replicate 260 0x41)"
    by (simp add: names_A MAX_PATH_SIZE_def numeral_2_eq_2)
  note first = callback_echo [OF slot buffer ids field name names_A(1) prefix_A, of 200]
  note second = callback_echo [OF slot buffer ids field name names_A(2) prefix_AA, of 200]
  have parent: "CreateInfo_ParentProcessId (creation (Some name_A))
      = CreateInfo_ParentProcessId (creation (Some name_AA))"
    by (simp add: creation_def)
  have delivered: "ProcessNotifyCallback filled_waiting_state 200 (Some (creation (Some name_A)))
      \<noteq> None"
    by (simp only: first option.distinct not_False_eq_True)
  have same: "ProcessNotifyCallback filled_waiting_state 200 (Some (creation (Some name_A)))
      = ProcessNotifyCallback filled_waiting_state 200 (Some (creation (Some name_AA)))"
    by (simp only: first second parent)
  have null_slot: "g_PendingIrp null_waiting_state = Some 4"
    by (simp add: null_waiting_state_eq)
  have waits: "waiting_consumer null_waiting_state 4"
    by (simp add: waiting_consumer_def null_waiting_state_eq null_IRP_def blank_IRP_def)
  have no_buffer: "SystemBuffer (irps null_waiting_state 4) = []"
    by (simp add: null_waiting_state_eq null_IRP_def blank_IRP_def)
  have nothing: "ProcessNotifyCallback null_waiting_state 200 (Some (creation (Some short_name)))
      = None"
    by (simp add: ProcessNotifyCallback_def null_slot no_buffer write_bytes_def
        length_bytes_of_word sizeof_HANDLE_def)
  note null_waiting_state_reachable
  show ?thesis
    by (intro conjI; fact)
qed

text \<open>
  Claim C1, amended. When \<^verbatim>\<open>g_PendingIrp\<close> holds a waiting request \<open>p\<close> whose buffer holds a
  whole record, the callback for a process creation (with no image path or a valid one)
  clears \<^verbatim>\<open>g_PendingIrp\<close> and completes \<open>p\<close> once, with success and the size of the record
  in its status block. The record in the buffer then has the process id, the parent id,
  and a path field that holds the first \<open>MAX_PATH_SIZE\<close> code units of the path followed by
  what the field held before from that index on (all of what it held before when the
  event has no path); the buffer keeps its length, and its bytes after the record keep
  their values. No other request changes, and no later notification touches the
  completed request again. The callback is a \<^verbatim>\<open>VOID\<close> routine: the delivery is the
  completion of the request.
\<close>

theorem publish_delivers_to_waiter:
  assumes "g_PendingIrp s = Some p"
    and "holds_PROCESS_CREATION_INFO (SystemBuffer (irps s p))"
    and "case CreateInfo_ImageFileName ci of None \<Rightarrow> True | Some name \<Rightarrow> valid_UNICODE_STRING name"
  shows "\<exists>s'. ProcessNotifyCallback s Pid (Some ci) = Some s' \<and>
     g_PendingIrp s' = None \<and>
     Completions (irps s' p) = Suc (Completions (irps s p)) \<and>
     IoStatus (irps s' p) =
       \<lparr>Status = STATUS_SUCCESS, Information = of_nat sizeof_PROCESS_CREATION_INFO\<rparr> \<and>
     PROCESS_CREATION_INFO_of (SystemBuffer (irps s' p)) =
       \<lparr>ProcessId = Pid, ParentProcessId = CreateInfo_ParentProcessId ci,
        ImageFileName =
          (case CreateInfo_ImageFileName ci of
             None \<Rightarrow> ImageFileName (PROCESS_CREATION_INFO_of (SystemBuffer (irps s p)))
           | Some name \<Rightarrow>
               take MAX_PATH_SIZE (image_path name)
               @ drop (length (take MAX_PATH_SIZE (image_path name)))
                   (ImageFileName (PROCESS_CREATION_INFO_of (SystemBuffer (irps s p)))))\<rparr> \<and>
     length (SystemBuffer (irps s' p)) = length (SystemBuffer (irps s p)) \<and>
     drop sizeof_PROCESS_CREATION_INFO (SystemBuffer (irps s' p))
       = drop sizeof_PROCESS_CREATION_INFO (SystemBuffer (irps s p)) \<and>
     (\<forall>q. q \<noteq> p \<longrightarrow> irps s' q = irps s q) \<and>
     (\<forall>Pid' CreateInfo'. ProcessNotifyCallback s' Pid' CreateInfo' = Some s')"
proof -
  from assms(3) have "case CreateInfo_ImageFileName ci of
      None \<Rightarrow> True | Some name \<Rightarrow> copies_whole_units name"
    by (cases "CreateInfo_ImageFileName ci") (simp_all add: valid_copies_whole_units)
  from delivered_record [OF assms(1,2) this, of Pid] obtain s' where
    result: "ProcessNotifyCallback s Pid (Some ci) = Some s'"
    and slot: "g_PendingIrp s' = None"
    and once: "Completions (irps s' p) = Suc (Completions (irps s p))"
    and status: "IoStatus (irps s' p) =
      \<lparr>Status = STATUS_SUCCESS, Information = of_nat sizeof_PROCESS_CREATION_INFO\<rparr>"
    and others: "\<forall>q. q \<noteq> p \<longrightarrow> irps s' q = irps s q"
    and len: "length (SystemBuffer (irps s' p)) = length (SystemBuffer (irps s p))"
    and beyond: "drop sizeof_PROCESS_CREATION_INFO (SystemBuffer (irps s' p))
      = drop sizeof_PROCESS_CREATION_INFO (SystemBuffer (irps s p))"
    and delivered: "PROCESS_CREATION_INFO_of (SystemBuffer (irps s' p)) =
      \<lparr>ProcessId = Pid, ParentProcessId = CreateInfo_ParentProcessId ci,
       ImageFileName =
         (case CreateInfo_ImageFileName ci of
            None \<Rightarrow> ImageFileName (PROCESS_CREATION_INFO_of (SystemBuffer (irps s p)))
          | Some name \<Rightarrow>
              take MAX_PATH_SIZE (image_path name)
              @ drop (length (take MAX_PATH_SIZE (image_path name)))
                  (ImageFileName (PROCESS_CREATION_INFO_of (SystemBuffer (irps s p)))))\<rparr>"
    by blast
  have later: "\<forall>Pid' CreateInfo'. ProcessNotifyCallback s' Pid' CreateInfo' = Some s'"
    using callback_without_waiter [OF slot] by blast
  show ?thesis
    using result slot once status delivered len beyond others later by blast
qed

theorem publish_delivers_to_waiter_witness:
  "g_PendingIrp stale_waiting_state = Some 5 \<and>
   holds_PROCESS_CREATION_INFO (SystemBuffer (irps stale_waiting_state 5)) \<and>
   valid_UNICODE_STRING short_name \<and>
   (\<exists>s'. ProcessNotifyCallback stale_waiting_state 200 (Some (creation (Some short_name))) = Some s' \<and>
      g_PendingIrp s' = None \<and>
      Completions (irps s' 5) = 1 \<and>
      IoStatus (irps s' 5) = \<lparr>Status = 0, Information = 536\<rparr> \<and>
      PROCESS_CREATION_INFO_of (SystemBuffer (irps s' 5)) =
        \<lparr>ProcessId = 200, ParentProcessId = 1,
         ImageFileName =
           [0x43, 0x3A, 0x5C, 0x61, 0x2E, 0x65, 0x78, 0x65] @ replicate 252 0xFFFF\<rparr>)"
proof -
  have valid: "case CreateInfo_ImageFileName (creation (Some short_name)) of
      None \<Rightarrow> True | Some name \<Rightarrow> valid_UNICODE_STRING name"
    by (simp add: creation_def short_name_valid)
  from publish_delivers_to_waiter [OF stale_waiting_state_slot stale_waiting_state_whole valid,
      of 200]
  obtain s' where
    result: "ProcessNotifyCallback stale_waiting_state 200 (Some (creation (Some short_name)))
      = Some s'"
    and slot: "g_PendingIrp s' = None"
    and once: "Completions (irps s' 5) = Suc (Completions (irps stale_waiting_state 5))"
    and status: "IoStatus (irps s' 5) =
      \<lparr>Status = STATUS_SUCCESS, Information = of_nat sizeof_PROCESS_CREATION_INFO\<rparr>"
    and delivered: "PROCESS_CREATION_INFO_of (SystemBuffer (irps s' 5)) =
      \<lparr>ProcessId = 200, ParentProcessId = CreateInfo_ParentProcessId (creation (Some short_name)),
       ImageFileName =
         (case CreateInfo_ImageFileName (creation (Some short_name)) of
            None \<Rightarrow> ImageFileName (PROCESS_CREATION_INFO_of (SystemBuffer (irps stale_waiting_state 5)))
          | Some name \<Rightarrow>
              take MAX_PATH_SIZE (image_path name)
              @ drop (length (take MAX_PATH_SIZE (image_path name)))
                  (ImageFileName (PROCESS_CREATION_INFO_of
                    (SystemBuffer (irps stale_waiting_state 5)))))\<rparr>"
    by blast
  have before: "Completions (irps stale_waiting_state 5) = 0"
    by (simp add: stale_waiting_state_eq stale_IRP_def wait_IRP_def blank_IRP_def)
  from once have once': "Completions (irps s' 5) = 1"
    using before by simp
  from status have status': "IoStatus (irps s' 5) = \<lparr>Status = 0, Information = 536\<rparr>"
    by (simp add: STATUS_SUCCESS_def layout_defs)
  from delivered have delivered': "PROCESS_CREATION_INFO_of (SystemBuffer (irps s' 5)) =
      \<lparr>ProcessId = 200, ParentProcessId = 1,
       ImageFileName = [0x43, 0x3A, 0x5C, 0x61, 0x2E, 0x65, 0x78, 0x65] @ replicate 252 0xFFFF\<rparr>"
    by (simp add: creation_def short_name_bounded stale_waiting_state_record)
  show ?thesis
    using stale_waiting_state_slot stale_waiting_state_whole short_name_valid
      result slot once' status' delivered'
    by blast
qed

subsection \<open>The path field of a delivered event\<close>

text \<open>
  Claim C7. When the image path of the event has more than \<open>MAX_PATH_SIZE\<close> (260) code
  units, the path field of the delivered record holds exactly the first 260 code units
  of the path, and nothing is written after the record. The outcome depends on the path
  alone: any other delivery of the same string, in any state and to any request whose
  buffer holds a whole record, leaves the same field.
\<close>

theorem long_path_truncated:
  assumes "g_PendingIrp s = Some p"
    and "holds_PROCESS_CREATION_INFO (SystemBuffer (irps s p))"
    and "CreateInfo_ImageFileName ci = Some name"
    and "MAX_PATH_SIZE < length (image_path name)"
  shows "\<exists>s'. ProcessNotifyCallback s Pid (Some ci) = Some s' \<and>
     ImageFileName (PROCESS_CREATION_INFO_of (SystemBuffer (irps s' p)))
       = take MAX_PATH_SIZE (image_path name) \<and>
     length (ImageFileName (PROCESS_CREATION_INFO_of (SystemBuffer (irps s' p))))
       = MAX_PATH_SIZE \<and>
     length (SystemBuffer (irps s' p)) = length (SystemBuffer (irps s p)) \<and>
     drop sizeof_PROCESS_CREATION_INFO (SystemBuffer (irps s' p))
       = drop sizeof_PROCESS_CREATION_INFO (SystemBuffer (irps s p)) \<and>
     (\<forall>s2 p2 Pid2 ci2.
        g_PendingIrp s2 = Some p2 \<and> holds_PROCESS_CREATION_INFO (SystemBuffer (irps s2 p2)) \<and>
        CreateInfo_ImageFileName ci2 = Some name \<longrightarrow>
        (\<exists>s2'. ProcessNotifyCallback s2 Pid2 (Some ci2) = Some s2' \<and>
           ImageFileName (PROCESS_CREATION_INFO_of (SystemBuffer (irps s2' p2)))
             = ImageFileName (PROCESS_CREATION_INFO_of (SystemBuffer (irps s' p)))))"
proof -
  have len: "length (take MAX_PATH_SIZE (image_path name)) = MAX_PATH_SIZE"
    using assms(4) by simp
  have truncated: "\<exists>t'. ProcessNotifyCallback t Pid' (Some ci') = Some t' \<and>
      ImageFileName (PROCESS_CREATION_INFO_of (SystemBuffer (irps t' q)))
        = take MAX_PATH_SIZE (image_path name) \<and>
      length (SystemBuffer (irps t' q)) = length (SystemBuffer (irps t q)) \<and>
      drop sizeof_PROCESS_CREATION_INFO (SystemBuffer (irps t' q))
        = drop sizeof_PROCESS_CREATION_INFO (SystemBuffer (irps t q))"
    if "g_PendingIrp t = Some q" and "holds_PROCESS_CREATION_INFO (SystemBuffer (irps t q))"
      and "CreateInfo_ImageFileName ci' = Some name" for t q Pid' ci'
  proof -
    from that(3) have "case CreateInfo_ImageFileName ci' of
        None \<Rightarrow> True | Some name \<Rightarrow> copies_whole_units name"
      by (simp add: long_copies_whole_units [OF assms(4)])
    from delivered_record [OF that(1,2) this, of Pid'] obtain t' where
      result: "ProcessNotifyCallback t Pid' (Some ci') = Some t'"
      and same_length: "length (SystemBuffer (irps t' q)) = length (SystemBuffer (irps t q))"
      and beyond: "drop sizeof_PROCESS_CREATION_INFO (SystemBuffer (irps t' q))
        = drop sizeof_PROCESS_CREATION_INFO (SystemBuffer (irps t q))"
      and delivered: "PROCESS_CREATION_INFO_of (SystemBuffer (irps t' q)) =
        \<lparr>ProcessId = Pid', ParentProcessId = CreateInfo_ParentProcessId ci',
         ImageFileName =
           (case CreateInfo_ImageFileName ci' of
              None \<Rightarrow> ImageFileName (PROCESS_CREATION_INFO_of (SystemBuffer (irps t q)))
            | Some name \<Rightarrow>
                take MAX_PATH_SIZE (image_path name)
                @ drop (length (take MAX_PATH_SIZE (image_path name)))
                    (ImageFileName (PROCESS_CREATION_INFO_of (SystemBuffer (irps t q)))))\<rparr>"
      by blast
    have "length (ImageFileName (PROCESS_CREATION_INFO_of (SystemBuffer (irps t q))))
        \<le> MAX_PATH_SIZE"
      by (simp add: PROCESS_CREATION_INFO_of_def length_WCHARs_of_bytes layout_defs)
    then have "drop MAX_PATH_SIZE (ImageFileName (PROCESS_CREATION_INFO_of (SystemBuffer (irps t q))))
        = []"
      by simp
    with delivered that(3) have "ImageFileName (PROCESS_CREATION_INFO_of (SystemBuffer (irps t' q)))
        = take MAX_PATH_SIZE (image_path name)"
      by (simp only: len option.case PROCESS_CREATION_INFO.select_convs append_Nil2)
    with result same_length beyond show ?thesis
      by blast
  qed
  from truncated [OF assms(1-3), of Pid] obtain s' where
    result: "ProcessNotifyCallback s Pid (Some ci) = Some s'"
    and field: "ImageFileName (PROCESS_CREATION_INFO_of (SystemBuffer (irps s' p)))
      = take MAX_PATH_SIZE (image_path name)"
    and same_length: "length (SystemBuffer (irps s' p)) = length (SystemBuffer (irps s p))"
    and beyond: "drop sizeof_PROCESS_CREATION_INFO (SystemBuffer (irps s' p))
      = drop sizeof_PROCESS_CREATION_INFO (SystemBuffer (irps s p))"
    by blast
  from field len have units: "length (ImageFileName (PROCESS_CREATION_INFO_of
      (SystemBuffer (irps s' p)))) = MAX_PATH_SIZE"
    by (simp only:)
  have "\<exists>s2'. ProcessNotifyCallback s2 Pid2 (Some ci2) = Some s2' \<and>
      ImageFileName (PROCESS_CREATION_INFO_of (SystemBuffer (irps s2' p2)))
        = ImageFileName (PROCESS_CREATION_INFO_of (SystemBuffer (irps s' p)))"
    if "g_PendingIrp s2 = Some p2 \<and> holds_PROCESS_CREATION_INFO (SystemBuffer (irps s2 p2)) \<and>
      CreateInfo_ImageFileName ci2 = Some name" for s2 p2 Pid2 ci2
  proof -
    from that have "g_PendingIrp s2 = Some p2"
      and "holds_PROCESS_CREATION_INFO (SystemBuffer (irps s2 p2))"
      and "CreateInfo_ImageFileName ci2 = Some name"
      by simp_all
    from truncated [OF this, of Pid2] show ?thesis
      unfolding field by blast
  qed
  with result field units same_length beyond show ?thesis
    by blast
qed

theorem long_path_truncated_witness:
  "g_PendingIrp stale_waiting_state = Some 5 \<and>
   holds_PROCESS_CREATION_INFO (SystemBuffer (irps stale_waiting_state 5)) \<and>
   CreateInfo_ImageFileName (creation (Some long_name)) = Some long_name \<and>
   MAX_PATH_SIZE < length (image_path long_name) \<and>
   (\<exists>s'. ProcessNotifyCallback stale_waiting_state 300 (Some (creation (Some long_name))) = Some s' \<and>
      ImageFileName (PROCESS_CREATION_INFO_of (SystemBuffer (irps s' 5))) = replicate 260 0x41)"
proof -
  have name: "CreateInfo_ImageFileName (creation (Some long_name)) = Some long_name"
    by (simp add: creation_def)
  have long: "MAX_PATH_SIZE < length (image_path long_name)"
    by (simp add: long_name_path MAX_PATH_SIZE_def)
  have cut: "take MAX_PATH_SIZE (image_path long_name) = replicate 260 0x41"
    by (simp add: long_name_path MAX_PATH_SIZE_def)
  from long_path_truncated [OF stale_waiting_state_slot stale_waiting_state_whole name long,
      of 300]
  obtain s' where
    "ProcessNotifyCallback stale_waiting_state 300 (Some (creation (Some long_name))) = Some s'"
    and "ImageFileName (PROCESS_CREATION_INFO_of (SystemBuffer (irps s' 5)))
      = take MAX_PATH_SIZE (image_path long_name)"
    by blast
  then have "\<exists>s'. ProcessNotifyCallback stale_waiting_state 300
        (Some (creation (Some long_name))) = Some s' \<and>
      ImageFileName (PROCESS_CREATION_INFO_of (SystemBuffer (irps s' 5))) = replicate 260 0x41"
    by (simp only: cut) blast
  with stale_waiting_state_slot stale_waiting_state_whole name long show ?thesis
    by blast
qed

text \<open>
  Claim C10. On a delivery to a request whose buffer holds a whole record, the callback
  writes the process id, the parent process id and the first \<open>min (length path)
  MAX_PATH_SIZE\<close> code units of a valid image path; every byte of the buffer after these
  keeps its value (no terminating zero, no padding), and when the event has no image path
  every byte after the two ids keeps its value. Read as a record, the buffer then has the
  two ids and a path field that is those code units followed by the field's old code
  units from that index on.
\<close>

theorem publish_writes_only_event_fields:
  assumes "g_PendingIrp s = Some p"
    and "holds_PROCESS_CREATION_INFO (SystemBuffer (irps s p))"
    and "case CreateInfo_ImageFileName ci of None \<Rightarrow> True | Some name \<Rightarrow> valid_UNICODE_STRING name"
  shows "\<exists>s'. ProcessNotifyCallback s Pid (Some ci) = Some s' \<and>
     SystemBuffer (irps s' p) =
       bytes_of_word sizeof_HANDLE Pid
       @ bytes_of_word sizeof_HANDLE (CreateInfo_ParentProcessId ci)
       @ (case CreateInfo_ImageFileName ci of
            None \<Rightarrow> drop offsetof_ImageFileName (SystemBuffer (irps s p))
          | Some name \<Rightarrow>
              bytes_of_WCHARs (take (min (length (image_path name)) MAX_PATH_SIZE) (image_path name))
              @ drop (offsetof_ImageFileName
                      + sizeof_WCHAR * min (length (image_path name)) MAX_PATH_SIZE)
                  (SystemBuffer (irps s p))) \<and>
     PROCESS_CREATION_INFO_of (SystemBuffer (irps s' p)) =
       \<lparr>ProcessId = Pid, ParentProcessId = CreateInfo_ParentProcessId ci,
        ImageFileName =
          (case CreateInfo_ImageFileName ci of
             None \<Rightarrow> ImageFileName (PROCESS_CREATION_INFO_of (SystemBuffer (irps s p)))
           | Some name \<Rightarrow>
               take (min (length (image_path name)) MAX_PATH_SIZE) (image_path name)
               @ drop (min (length (image_path name)) MAX_PATH_SIZE)
                   (ImageFileName (PROCESS_CREATION_INFO_of (SystemBuffer (irps s p)))))\<rparr>"
proof -
  have cut: "take (min (length xs) n) xs = take n xs" for n and xs :: "WCHAR list"
    by (simp add: min_def)
  have units: "length (take n xs) = min (length xs) n" for n and xs :: "WCHAR list"
    by simp
  from assms(3) have ok: "case CreateInfo_ImageFileName ci of
      None \<Rightarrow> True | Some name \<Rightarrow> copies_whole_units name"
    by (cases "CreateInfo_ImageFileName ci") (simp_all add: valid_copies_whole_units)
  note state = callback_delivers [OF assms(1,2) ok, of Pid]
  from delivered_record [OF assms(1,2) ok, of Pid] obtain s' where
    result: "ProcessNotifyCallback s Pid (Some ci) = Some s'"
    and delivered: "PROCESS_CREATION_INFO_of (SystemBuffer (irps s' p)) =
      \<lparr>ProcessId = Pid, ParentProcessId = CreateInfo_ParentProcessId ci,
       ImageFileName =
         (case CreateInfo_ImageFileName ci of
            None \<Rightarrow> ImageFileName (PROCESS_CREATION_INFO_of (SystemBuffer (irps s p)))
          | Some name \<Rightarrow>
              take MAX_PATH_SIZE (image_path name)
              @ drop (length (take MAX_PATH_SIZE (image_path name)))
                  (ImageFileName (PROCESS_CREATION_INFO_of (SystemBuffer (irps s p)))))\<rparr>"
    by blast
  from result have "SystemBuffer (irps s' p) =
      bytes_of_word sizeof_HANDLE Pid
      @ bytes_of_word sizeof_HANDLE (CreateInfo_ParentProcessId ci)
      @ (case CreateInfo_ImageFileName ci of
           None \<Rightarrow> drop offsetof_ImageFileName (SystemBuffer (irps s p))
         | Some name \<Rightarrow>
             bytes_of_WCHARs (take MAX_PATH_SIZE (image_path name))
             @ drop (offsetof_ImageFileName + 2 * length (take MAX_PATH_SIZE (image_path name)))
                 (SystemBuffer (irps s p)))"
    unfolding state by auto
  then have bytes: "SystemBuffer (irps s' p) =
      bytes_of_word sizeof_HANDLE Pid
      @ bytes_of_word sizeof_HANDLE (CreateInfo_ParentProcessId ci)
      @ (case CreateInfo_ImageFileName ci of
           None \<Rightarrow> drop offsetof_ImageFileName (SystemBuffer (irps s p))
         | Some name \<Rightarrow>
             bytes_of_WCHARs (take (min (length (image_path name)) MAX_PATH_SIZE) (image_path name))
             @ drop (offsetof_ImageFileName
                     + sizeof_WCHAR * min (length (image_path name)) MAX_PATH_SIZE)
                 (SystemBuffer (irps s p)))"
    by (simp only: cut units sizeof_WCHAR_def)
  from delivered have "PROCESS_CREATION_INFO_of (SystemBuffer (irps s' p)) =
      \<lparr>ProcessId = Pid, ParentProcessId = CreateInfo_ParentProcessId ci,
       ImageFileName =
         (case CreateInfo_ImageFileName ci of
            None \<Rightarrow> ImageFileName (PROCESS_CREATION_INFO_of (SystemBuffer (irps s p)))
          | Some name \<Rightarrow>
              take (min (length (image_path name)) MAX_PATH_SIZE) (image_path name)
              @ drop (min (length (image_path name)) MAX_PATH_SIZE)
                  (ImageFileName (PROCESS_CREATION_INFO_of (SystemBuffer (irps s p)))))\<rparr>"
    by (simp only: cut units)
  with result bytes show ?thesis
    by blast
qed

theorem publish_writes_only_event_fields_witness:
  "g_PendingIrp stale_waiting_state = Some 5 \<and>
   holds_PROCESS_CREATION_INFO (SystemBuffer (irps stale_waiting_state 5)) \<and>
   valid_UNICODE_STRING short_name \<and>
   (\<exists>s'. ProcessNotifyCallback stale_waiting_state 200 (Some (creation (Some short_name))) = Some s' \<and>
      PROCESS_CREATION_INFO_of (SystemBuffer (irps s' 5))
        = \<lparr>ProcessId = 200, ParentProcessId = 1,
           ImageFileName =
             [0x43, 0x3A, 0x5C, 0x61, 0x2E, 0x65, 0x78, 0x65] @ replicate 252 0xFFFF\<rparr>) \<and>
   (\<exists>s'. ProcessNotifyCallback stale_waiting_state 200 (Some (creation None)) = Some s' \<and>
      PROCESS_CREATION_INFO_of (SystemBuffer (irps s' 5))
        = \<lparr>ProcessId = 200, ParentProcessId = 1, ImageFileName = replicate 260 0xFFFF\<rparr>)"
proof -
  have with_path: "case CreateInfo_ImageFileName (creation (Some short_name)) of
      None \<Rightarrow> True | Some name \<Rightarrow> valid_UNICODE_STRING name"
    by (simp add: creation_def short_name_valid)
  have without_path: "case CreateInfo_ImageFileName (creation None) of
      None \<Rightarrow> True | Some name \<Rightarrow> valid_UNICODE_STRING name"
    by (simp add: creation_def)
  have first: "\<exists>s'. ProcessNotifyCallback stale_waiting_state 200
        (Some (creation (Some short_name))) = Some s' \<and>
      PROCESS_CREATION_INFO_of (SystemBuffer (irps s' 5))
        = \<lparr>ProcessId = 200, ParentProcessId = 1,
           ImageFileName =
             [0x43, 0x3A, 0x5C, 0x61, 0x2E, 0x65, 0x78, 0x65] @ replicate 252 0xFFFF\<rparr>"
    using publish_writes_only_event_fields
      [OF stale_waiting_state_slot stale_waiting_state_whole with_path, of 200]
    by (auto simp add: stale_waiting_state_record creation_def short_name_path MAX_PATH_SIZE_def)
  have second: "\<exists>s'. ProcessNotifyCallback stale_waiting_state 200 (Some (creation None)) = Some s' \<and>
      PROCESS_CREATION_INFO_of (SystemBuffer (irps s' 5))
        = \<lparr>ProcessId = 200, ParentProcessId = 1, ImageFileName = replicate 260 0xFFFF\<rparr>"
    using publish_writes_only_event_fields
      [OF stale_waiting_state_slot stale_waiting_state_whole without_path, of 200]
    by (auto simp add: stale_waiting_state_record creation_def)
  show ?thesis
    using stale_waiting_state_slot stale_waiting_state_whole short_name_valid first second
    by blast
qed

subsection \<open>Notifications that deliver nothing\<close>

text \<open>
  Claim C3. While \<^verbatim>\<open>g_PendingIrp\<close> is \<^verbatim>\<open>NULL\<close>, any sequence of notifications leaves the
  whole driver state as it was: no request is completed, nothing is stored for a later
  consumer, and \<^verbatim>\<open>g_PendingIrp\<close> stays \<^verbatim>\<open>NULL\<close>.
\<close>

theorem publish_without_waiter_drops:
  assumes "g_PendingIrp s = None"
  shows "notifications s events = Some s"
  using assms
proof (induction events arbitrary: s)
  case Nil
  show ?case by simp
next
  case (Cons e rest)
  obtain Pid CreateInfo where e: "e = (Pid, CreateInfo)"
    by (cases e)
  from Cons.prems have "ProcessNotifyCallback s Pid CreateInfo = Some s"
    by (rule callback_without_waiter)
  with Cons show ?case
    by (simp add: e)
qed

theorem publish_without_waiter_drops_witness:
  "g_PendingIrp loaded_state = None \<and>
   notifications loaded_state
     [(100, Some (creation (Some short_name))), (101, None), (102, Some (creation None))]
   = Some loaded_state"
  using loaded_state_slot publish_without_waiter_drops [OF loaded_state_slot] by blast

text \<open>
  Claim C8. A process-exit notification (\<^verbatim>\<open>CreateInfo\<close> is \<^verbatim>\<open>NULL\<close>) leaves the whole driver
  state as it was: \<^verbatim>\<open>g_PendingIrp\<close>, every request and every request's buffer.
\<close>

theorem exit_notification_changes_nothing:
  "ProcessNotifyCallback s Pid None = Some s"
  by (simp add: ProcessNotifyCallback_def)

subsection \<open>The dispatcher\<close>

text \<open>
  Claim C4. While a request \<open>p\<close> waits in \<^verbatim>\<open>g_PendingIrp\<close>, another request for the next
  event is completed at once with \<^verbatim>\<open>STATUS_DEVICE_BUSY\<close> and no output, is not marked
  pending, and the first request stays in \<^verbatim>\<open>g_PendingIrp\<close>, unchanged.
\<close>

theorem second_wait_is_busy:
  assumes "g_PendingIrp s = Some p"
    and "IoControlCode (irps s Irp) = IOCTL_CYBERION_GET_PROCESS_INFO"
    and "Irp \<noteq> p"
  shows "let (status, s') = CyberionDeviceControl s Irp in
     status = STATUS_DEVICE_BUSY \<and>
     IoStatus (irps s' Irp) = \<lparr>Status = STATUS_DEVICE_BUSY, Information = 0\<rparr> \<and>
     Completions (irps s' Irp) = Suc (Completions (irps s Irp)) \<and>
     PendingReturned (irps s' Irp) = PendingReturned (irps s Irp) \<and>
     g_PendingIrp s' = Some p \<and>
     irps s' p = irps s p"
  using assms(1,3)
  by (simp add: control_busy [OF assms(2) assms(1)] completed_request update_irp_frame)

theorem second_wait_is_busy_witness:
  "g_PendingIrp second_wait_state = Some 3 \<and>
   IoControlCode (irps second_wait_state 2) = IOCTL_CYBERION_GET_PROCESS_INFO \<and>
   (2::nat) \<noteq> 3 \<and>
   fst (CyberionDeviceControl second_wait_state 2) = STATUS_DEVICE_BUSY \<and>
   \<not> NT_SUCCESS STATUS_DEVICE_BUSY \<and>
   Completions (irps (snd (CyberionDeviceControl second_wait_state 2)) 2) = 1 \<and>
   g_PendingIrp (snd (CyberionDeviceControl second_wait_state 2)) = Some 3 \<and>
   irps (snd (CyberionDeviceControl second_wait_state 2)) 3 = wait_IRP\<lparr>PendingReturned := True\<rparr>"
proof -
  have slot: "g_PendingIrp second_wait_state = Some 3"
    by (simp add: second_wait_state_def arrival_def waiting_state_slot)
  have code: "IoControlCode (irps second_wait_state 2) = IOCTL_CYBERION_GET_PROCESS_INFO"
    by (simp add: second_wait_state_def arrival_def wait_IRP_def)
  have other: "(2::nat) \<noteq> 3"
    by simp
  have first: "irps second_wait_state 3 = wait_IRP\<lparr>PendingReturned := True\<rparr>"
    by (simp add: second_wait_state_def arrival_def waiting_state_request)
  have before: "Completions (irps second_wait_state 2) = 0"
    by (simp add: second_wait_state_def arrival_def wait_IRP_def blank_IRP_def)
  have failure: "\<not> NT_SUCCESS STATUS_DEVICE_BUSY"
    by (simp add: NT_SUCCESS_def STATUS_DEVICE_BUSY_def)
  show ?thesis
    using slot code first before failure second_wait_is_busy [OF slot code other]
    by (simp add: split_def Let_def)
qed

text \<open>
  Claim C9. A request with the control code \<^verbatim>\<open>IOCTL_CYBERION_SEND_RESPONSE\<close> is completed
  with \<^verbatim>\<open>STATUS_SUCCESS\<close> and no output whatever its buffer holds as the decision record;
  the buffer, and so the record in it, is not written, \<^verbatim>\<open>g_PendingIrp\<close> keeps its value
  and every other request, a waiting one among them, is unchanged.
\<close>

theorem submit_decision_always_succeeds:
  assumes "IoControlCode (irps s Irp) = IOCTL_CYBERION_SEND_RESPONSE"
  shows "let (status, s') = CyberionDeviceControl s Irp in
     status = STATUS_SUCCESS \<and>
     IoStatus (irps s' Irp) = \<lparr>Status = STATUS_SUCCESS, Information = 0\<rparr> \<and>
     Completions (irps s' Irp) = Suc (Completions (irps s Irp)) \<and>
     SystemBuffer (irps s' Irp) = SystemBuffer (irps s Irp) \<and>
     USER_RESPONSE_of (SystemBuffer (irps s' Irp)) = USER_RESPONSE_of (SystemBuffer (irps s Irp)) \<and>
     g_PendingIrp s' = g_PendingIrp s \<and>
     (\<forall>q. q \<noteq> Irp \<longrightarrow> irps s' q = irps s q)"
  by (simp add: control_response [OF assms] completed_request update_irp_frame)

theorem submit_decision_always_succeeds_witness:
  "IoControlCode (irps (decision_state block_decision) 2) = IOCTL_CYBERION_SEND_RESPONSE \<and>
   USER_RESPONSE_of (SystemBuffer (irps (decision_state block_decision) 2)) = block_decision \<and>
   fst (CyberionDeviceControl (decision_state block_decision) 2) = STATUS_SUCCESS \<and>
   IoStatus (irps (snd (CyberionDeviceControl (decision_state block_decision) 2)) 2)
     = \<lparr>Status = STATUS_SUCCESS, Information = 0\<rparr> \<and>
   g_PendingIrp (snd (CyberionDeviceControl (decision_state block_decision) 2)) = Some 3 \<and>
   irps (snd (CyberionDeviceControl (decision_state block_decision) 2)) 3
     = wait_IRP\<lparr>PendingReturned := True\<rparr>"
proof -
  have code: "IoControlCode (irps (decision_state block_decision) 2) = IOCTL_CYBERION_SEND_RESPONSE"
    by (simp add: decision_state_def arrival_def decision_IRP_def)
  have decision: "USER_RESPONSE_of (SystemBuffer (irps (decision_state block_decision) 2))
      = block_decision"
    by (simp add: decision_state_def arrival_def decision_IRP_def USER_RESPONSE_of_bytes)
  have slot: "g_PendingIrp (decision_state block_decision) = Some 3"
    by (simp add: decision_state_def arrival_def waiting_state_slot)
  have waiter: "irps (decision_state block_decision) 3 = wait_IRP\<lparr>PendingReturned := True\<rparr>"
    by (simp add: decision_state_def arrival_def waiting_state_request)
  note completed = submit_decision_always_succeeds [OF code, unfolded split_def Let_def]
  have "irps (snd (CyberionDeviceControl (decision_state block_decision) 2)) 3
      = irps (decision_state block_decision) 3"
    using completed by simp
  then show ?thesis
    using code decision slot waiter completed by simp
qed

text \<open>
  Claim C5, as the specification states it: the dispatcher checks that the decision
  record is well-formed and completes a malformed one with a failure. The source does
  not: the request whose buffer holds \<open>malformed_decision\<close> (no process id, verdict 7) is
  completed with \<^verbatim>\<open>STATUS_SUCCESS\<close>.
\<close>

theorem malformed_decision_succeeds:
  "\<not> spec_well_formed_decision malformed_decision \<and>
   USER_RESPONSE_of (SystemBuffer (irps (decision_state malformed_decision) 2))
     = malformed_decision \<and>
   fst (CyberionDeviceControl (decision_state malformed_decision) 2) = STATUS_SUCCESS \<and>
   IoStatus (irps (snd (CyberionDeviceControl (decision_state malformed_decision) 2)) 2)
     = \<lparr>Status = STATUS_SUCCESS, Information = 0\<rparr> \<and>
   NT_SUCCESS STATUS_SUCCESS"
proof -
  have code: "IoControlCode (irps (decision_state malformed_decision) 2)
      = IOCTL_CYBERION_SEND_RESPONSE"
    by (simp add: decision_state_def arrival_def decision_IRP_def)
  have malformed: "\<not> spec_well_formed_decision malformed_decision"
    by (simp add: spec_well_formed_decision_def malformed_decision_def)
  have decision: "USER_RESPONSE_of (SystemBuffer (irps (decision_state malformed_decision) 2))
      = malformed_decision"
    by (simp add: decision_state_def arrival_def decision_IRP_def USER_RESPONSE_of_bytes)
  have success: "NT_SUCCESS STATUS_SUCCESS"
    by (simp add: NT_SUCCESS_def STATUS_SUCCESS_def)
  show ?thesis
    using malformed decision success
    by (simp add: control_response [OF code] completed_request)
qed

text \<open>
  Claim C5, amended: the dispatcher completes every \<^verbatim>\<open>IOCTL_CYBERION_SEND_RESPONSE\<close>
  request with \<^verbatim>\<open>STATUS_SUCCESS\<close> without checking the decision record: whatever bytes
  \<open>buf\<close> the buffer of the request holds, those of a well-formed record, of a malformed one
  or of none, the status returned and the status of the completed request are
  \<^verbatim>\<open>STATUS_SUCCESS\<close>, and the request is completed once.
\<close>

theorem submit_decision_not_validated:
  assumes "IoControlCode Irp = IOCTL_CYBERION_SEND_RESPONSE"
  shows "fst (CyberionDeviceControl (arrival s p (Irp\<lparr>SystemBuffer := buf\<rparr>)) p) = STATUS_SUCCESS \<and>
     Status (IoStatus (irps (snd (CyberionDeviceControl
         (arrival s p (Irp\<lparr>SystemBuffer := buf\<rparr>)) p)) p)) = STATUS_SUCCESS \<and>
     Completions (irps (snd (CyberionDeviceControl
         (arrival s p (Irp\<lparr>SystemBuffer := buf\<rparr>)) p)) p) = Suc (Completions Irp) \<and>
     NT_SUCCESS (fst (CyberionDeviceControl (arrival s p (Irp\<lparr>SystemBuffer := buf\<rparr>)) p))"
proof -
  let ?s = "arrival s p (Irp\<lparr>SystemBuffer := buf\<rparr>)"
  from assms have "IoControlCode (irps ?s p) = IOCTL_CYBERION_SEND_RESPONSE"
    by (simp add: arrival_def)
  moreover have "Completions (irps ?s p) = Completions Irp"
    by (simp add: arrival_def)
  ultimately show ?thesis
    by (simp add: control_response completed_request NT_SUCCESS_def STATUS_SUCCESS_def)
qed

theorem submit_decision_not_validated_witness:
  "IoControlCode (decision_IRP block_decision) = IOCTL_CYBERION_SEND_RESPONSE \<and>
   spec_well_formed_decision (USER_RESPONSE_of (bytes_of_USER_RESPONSE block_decision)) \<and>
   fst (CyberionDeviceControl
     (arrival loaded_state 2
       ((decision_IRP block_decision)\<lparr>SystemBuffer := bytes_of_USER_RESPONSE block_decision\<rparr>)) 2)
     = STATUS_SUCCESS \<and>
   \<not> spec_well_formed_decision (USER_RESPONSE_of (bytes_of_USER_RESPONSE malformed_decision)) \<and>
   fst (CyberionDeviceControl
     (arrival loaded_state 2
       ((decision_IRP block_decision)\<lparr>SystemBuffer := bytes_of_USER_RESPONSE malformed_decision\<rparr>)) 2)
     = STATUS_SUCCESS"
proof -
  have code: "IoControlCode (decision_IRP block_decision) = IOCTL_CYBERION_SEND_RESPONSE"
    by (simp add: decision_IRP_def)
  have well_formed:
    "spec_well_formed_decision (USER_RESPONSE_of (bytes_of_USER_RESPONSE block_decision))"
    by (simp add: USER_RESPONSE_of_bytes spec_well_formed_decision_def block_decision_def
        UserResponseBlock_def)
  have malformed:
    "\<not> spec_well_formed_decision (USER_RESPONSE_of (bytes_of_USER_RESPONSE malformed_decision))"
    by (simp add: USER_RESPONSE_of_bytes spec_well_formed_decision_def malformed_decision_def)
  show ?thesis
    using code well_formed malformed
      submit_decision_not_validated [OF code, of loaded_state 2
        "bytes_of_USER_RESPONSE block_decision"]
      submit_decision_not_validated [OF code, of loaded_state 2
        "bytes_of_USER_RESPONSE malformed_decision"]
    by blast
qed

subsection \<open>Unload\<close>

text \<open>
  Claim C6 says that the cancel at detach completes a waiting request with a cancelled
  result. Evaluated in the state where request 3 waits, \<^verbatim>\<open>CyberionUnload\<close> clears
  \<^verbatim>\<open>g_PendingIrp\<close> and sets the request's cancel flag, but the request is not completed and
  its status block is not written: its status is not \<^verbatim>\<open>STATUS_CANCELLED\<close>.
\<close>

theorem unload_leaves_waiter_uncompleted:
  "g_PendingIrp waiting_state = Some 3 \<and>
   g_PendingIrp (CyberionUnload waiting_state) = None \<and>
   Cancel (irps (CyberionUnload waiting_state) 3) \<and>
   Completions (irps (CyberionUnload waiting_state) 3) = 0 \<and>
   IoStatus (irps (CyberionUnload waiting_state) 3) = IoStatus (irps waiting_state 3) \<and>
   Status (IoStatus (irps (CyberionUnload waiting_state) 3)) \<noteq> STATUS_CANCELLED"
proof -
  have before: "Completions (irps waiting_state 3) = 0"
    "Status (IoStatus (irps waiting_state 3)) = 0"
    by (simp_all add: waiting_state_request wait_IRP_def blank_IRP_def)
  have flag: "Cancel (irps (CyberionUnload waiting_state) 3)"
    by (simp add: CyberionUnload_def waiting_state_slot update_irp_def IoCancelIrp_def)
  show ?thesis
    using before flag
    by (simp add: waiting_state_slot unload_clears_slot unload_never_completes
        STATUS_CANCELLED_def)
qed

subsection \<open>The single slot\<close>

lemma DriverEntry_frame:
  "g_PendingIrp (snd (DriverEntry s a b c)) = g_PendingIrp s"
  "irps (snd (DriverEntry s a b c)) = irps s"
  by (simp_all add: DriverEntry_def Let_def)

lemma single_slot_initial: "single_slot initial_state"
  by (simp add: single_slot_def waiting_consumer_def initial_state_def blank_IRP_def)

lemma single_slot_loaded:
  assumes "DriverEntry initial_state a b c = (status, s)"
  shows "single_slot s"
proof -
  from assms have "s = snd (DriverEntry initial_state a b c)"
    by simp
  then have "g_PendingIrp s = g_PendingIrp initial_state" "irps s = irps initial_state"
    by (simp_all add: DriverEntry_frame)
  with single_slot_initial show ?thesis
    by (simp add: single_slot_def waiting_consumer_def)
qed

lemma single_slot_arrival:
  assumes "single_slot s" and "g_PendingIrp s \<noteq> Some p" and "new_IRP Irp"
  shows "single_slot (arrival s p Irp)"
  using assms by (auto simp add: single_slot_def waiting_consumer_def new_IRP_def arrival_def)

lemma single_slot_completed:
  assumes "single_slot s" and "g_PendingIrp s \<noteq> Some p"
  shows "single_slot (update_irp p (complete_with status) s)"
  using assms
  by (auto simp add: single_slot_def waiting_consumer_def update_irp_def complete_with_def
      IoCompleteRequest_def)

lemma single_slot_accepted:
  assumes "single_slot s" and "g_PendingIrp s = None" and "new_IRP (irps s p)"
  shows "single_slot (update_irp p IoMarkIrpPending (s\<lparr>g_PendingIrp := Some p\<rparr>))"
  using assms
  by (auto simp add: single_slot_def waiting_consumer_def update_irp_def IoMarkIrpPending_def
      new_IRP_def)

lemma single_slot_device_control:
  assumes "single_slot s" and "g_PendingIrp s \<noteq> Some p" and "new_IRP (irps s p)"
  shows "single_slot (snd (CyberionDeviceControl s p))"
proof (cases "IoControlCode (irps s p) = IOCTL_CYBERION_GET_PROCESS_INFO")
  case wait: True
  show ?thesis
  proof (cases "g_PendingIrp s")
    case None
    with assms show ?thesis
      by (simp add: control_accept [OF wait None] single_slot_accepted)
  next
    case (Some w)
    with assms show ?thesis
      by (simp add: control_busy [OF wait Some] single_slot_completed)
  qed
next
  case no_wait: False
  show ?thesis
  proof (cases "IoControlCode (irps s p) = IOCTL_CYBERION_SEND_RESPONSE")
    case True
    with assms show ?thesis
      by (simp add: control_response single_slot_completed)
  next
    case False
    with assms no_wait show ?thesis
      by (simp add: control_other single_slot_completed)
  qed
qed

text \<open>
  A notification that returns a state: either it changed nothing, or it completed the
  request in \<^verbatim>\<open>g_PendingIrp\<close> and cleared \<^verbatim>\<open>g_PendingIrp\<close>.
\<close>

lemma callback_result:
  assumes "ProcessNotifyCallback s Pid CreateInfo = Some s'"
  shows "s' = s \<or>
     (\<exists>p. g_PendingIrp s = Some p \<and> g_PendingIrp s' = None \<and>
        0 < Completions (irps s' p) \<and> (\<forall>q. q \<noteq> p \<longrightarrow> irps s' q = irps s q))"
proof (cases CreateInfo)
  case None
  with assms show ?thesis
    by (simp add: ProcessNotifyCallback_def)
next
  case (Some ci)
  show ?thesis
  proof (cases "g_PendingIrp s")
    case None
    with assms show ?thesis
      by (simp add: callback_without_waiter)
  next
    case (Some p)
    with assms \<open>CreateInfo = Some ci\<close> obtain buf where
      "s' = (update_irp p IoCompleteRequest
          (update_irp p (\<lambda>Irp. Irp\<lparr>IoStatus := (IoStatus Irp)
              \<lparr>Information := of_nat sizeof_PROCESS_CREATION_INFO\<rparr>\<rparr>)
            (update_irp p (\<lambda>Irp. Irp\<lparr>IoStatus := (IoStatus Irp)\<lparr>Status := STATUS_SUCCESS\<rparr>\<rparr>)
              (update_irp p (\<lambda>Irp. Irp\<lparr>SystemBuffer := buf\<rparr>) s))))\<lparr>g_PendingIrp := None\<rparr>"
      by (auto simp add: ProcessNotifyCallback_def Let_def split: option.splits)
    then have "g_PendingIrp s' = None" "0 < Completions (irps s' p)"
      "\<forall>q. q \<noteq> p \<longrightarrow> irps s' q = irps s q"
      by (simp_all add: update_irp_def IoCompleteRequest_def)
    with Some show ?thesis
      by blast
  qed
qed

lemma single_slot_notify:
  assumes "single_slot s" and "ProcessNotifyCallback s Pid CreateInfo = Some s'"
  shows "single_slot s'"
  using callback_result [OF assms(2)]
proof
  assume "s' = s"
  with assms(1) show ?thesis
    by simp
next
  assume "\<exists>p. g_PendingIrp s = Some p \<and> g_PendingIrp s' = None \<and>
      0 < Completions (irps s' p) \<and> (\<forall>q. q \<noteq> p \<longrightarrow> irps s' q = irps s q)"
  then obtain p where slot: "g_PendingIrp s = Some p" and cleared: "g_PendingIrp s' = None"
    and completed: "0 < Completions (irps s' p)"
    and others: "\<forall>q. q \<noteq> p \<longrightarrow> irps s' q = irps s q"
    by blast
  from assms(1) have before: "waiting_consumer s q = (g_PendingIrp s = Some q)" for q
    by (simp add: single_slot_def)
  have "\<not> waiting_consumer s' q" for q
  proof (cases "q = p")
    case True
    with completed show ?thesis
      by (simp add: waiting_consumer_def)
  next
    case False
    with others have "waiting_consumer s' q = waiting_consumer s q"
      by (simp add: waiting_consumer_def)
    with False slot before [of q] show ?thesis
      by simp
  qed
  with cleared show ?thesis
    by (simp add: single_slot_def)
qed

lemma single_slot_unload:
  assumes "single_slot s"
  shows "single_slot (CyberionUnload s)"
proof -
  from assms have slot: "waiting_consumer s q = (g_PendingIrp s = Some q)" for q
    by (simp add: single_slot_def)
  have "\<not> waiting_consumer (CyberionUnload s) q" for q
  proof (cases "g_PendingIrp s")
    case None
    with slot [of q] have "\<not> waiting_consumer s q"
      by simp
    with None show ?thesis
      by (simp add: waiting_consumer_def CyberionUnload_def)
  next
    case (Some w)
    show ?thesis
    proof (cases "q = w")
      case True
      with Some show ?thesis
        by (simp add: waiting_consumer_def CyberionUnload_def update_irp_def IoCancelIrp_def)
    next
      case False
      with slot [of q] Some have "\<not> waiting_consumer s q"
        by simp
      with False Some show ?thesis
        by (simp add: waiting_consumer_def CyberionUnload_def update_irp_def)
    qed
  qed
  then show ?thesis
    by (simp add: single_slot_def unload_clears_slot)
qed

lemma reachable_single_slot: "reachable s \<Longrightarrow> single_slot s"
proof (induction rule: reachable.induct)
  case (loaded createDevice createLink setNotify s)
  then show ?case
    by (rule single_slot_loaded)
next
  case (device_control s p Irp)
  then have "single_slot (arrival s p Irp)"
    by (simp add: single_slot_arrival)
  moreover from device_control
  have "g_PendingIrp (arrival s p Irp) \<noteq> Some p" "new_IRP (irps (arrival s p Irp) p)"
    by (simp_all add: arrival_def)
  ultimately show ?case
    by (rule single_slot_device_control)
next
  case (create_close s p Irp)
  then have "single_slot (arrival s p Irp)"
    by (simp add: single_slot_arrival)
  moreover from create_close have "g_PendingIrp (arrival s p Irp) \<noteq> Some p"
    by (simp add: arrival_def)
  ultimately show ?case
    by (simp add: CyberionCreateClose_def single_slot_completed)
next
  case (notify s Pid CreateInfo s')
  then show ?case
    by (simp add: single_slot_notify)
next
  case (unload s)
  then show ?case
    by (simp add: single_slot_unload)
qed

text \<open>
  Claim C2. In every state the driver reaches from its load by device-control and
  create/close requests, process notifications and unloads, \<^verbatim>\<open>g_PendingIrp\<close> is \<^verbatim>\<open>NULL\<close> or
  holds one request, which is a waiting consumer; every waiting consumer is the request in
  \<^verbatim>\<open>g_PendingIrp\<close>, so there are never two.
\<close>

theorem reachable_at_most_one_waiter:
  assumes "reachable s"
  shows "(g_PendingIrp s = None \<or> (\<exists>p. g_PendingIrp s = Some p \<and> waiting_consumer s p)) \<and>
     (\<forall>p. waiting_consumer s p \<longrightarrow> g_PendingIrp s = Some p) \<and>
     (\<forall>p q. waiting_consumer s p \<and> waiting_consumer s q \<longrightarrow> p = q)"
proof -
  from assms have "single_slot s"
    by (rule reachable_single_slot)
  then have slot: "waiting_consumer s q = (g_PendingIrp s = Some q)" for q
    by (simp add: single_slot_def)
  show ?thesis
    by (cases "g_PendingIrp s") (auto simp add: slot)
qed

theorem reachable_at_most_one_waiter_witness:
  "reachable (snd (CyberionDeviceControl second_wait_state 2)) \<and>
   g_PendingIrp (snd (CyberionDeviceControl second_wait_state 2)) = Some 3 \<and>
   waiting_consumer (snd (CyberionDeviceControl second_wait_state 2)) 3 \<and>
   \<not> waiting_consumer (snd (CyberionDeviceControl second_wait_state 2)) 2"
proof -
  let ?s = "snd (CyberionDeviceControl second_wait_state 2)"
  have "g_PendingIrp waiting_state \<noteq> Some 2"
    by (simp add: waiting_state_slot)
  with waiting_state_reachable have reach: "reachable ?s"
    unfolding second_wait_state_def using new_requests(1) by (rule reachable.device_control)
  have "g_PendingIrp second_wait_state = Some 3"
    by (simp add: second_wait_state_def arrival_def waiting_state_slot)
  moreover have "IoControlCode (irps second_wait_state 2) = IOCTL_CYBERION_GET_PROCESS_INFO"
    by (simp add: second_wait_state_def arrival_def wait_IRP_def)
  ultimately have slot: "g_PendingIrp ?s = Some 3"
    by (simp add: control_busy update_irp_frame)
  note one = reachable_at_most_one_waiter [OF reach]
  from one have "g_PendingIrp ?s = None \<or> (\<exists>p. g_PendingIrp ?s = Some p \<and> waiting_consumer ?s p)"
    by (rule conjunct1)
  with slot have first: "waiting_consumer ?s 3"
    by (metis option.distinct(1) option.inject)
  from one have "\<forall>p. waiting_consumer ?s p \<longrightarrow> g_PendingIrp ?s = Some p"
    by blast
  moreover have "(2::nat) \<noteq> 3"
    by simp
  ultimately have second: "\<not> waiting_consumer ?s 2"
    using slot by (metis option.inject)
  show ?thesis
    using reach slot first second by blast
qed


end
